theory Spec2Isabelle
  imports Main
begin

section \<open>Data model of the units visuals (mol-geo/representation/structure/units-visual)\<close>

text \<open>
  The three visuals of the file (\<^verbatim>\<open>UnitsMeshVisual\<close>, \<^verbatim>\<open>UnitsPointsVisual\<close>,
  \<^verbatim>\<open>UnitsLinesVisual\<close>) are closures over seven mutable variables and one shared
  \<^verbatim>\<open>VisualUpdateState\<close>. The closure is a record here, every \<^verbatim>\<open>let\<close> variable that
  starts undefined is an option, and every function takes the record and returns it updated.
  An \<^verbatim>\<open>await\<close> is sequential composition: the source is single threaded.
\<close>

datatype Kind = Atomic | Spheres | Gaussians

text \<open>
  Modelled from the spec: \<^verbatim>\<open>Unit\<close> and \<^verbatim>\<open>Unit.conformationId\<close> live in mol-model/structure,
  which is not part of the sources at hand. A unit carries its kind, the identity of its
  coordinate data and the spatial transform that tells symmetry copies apart.
\<close>

record Unit =
  unit_id :: nat
  kind :: Kind
  conformationId :: nat
  operator :: nat

record SymmetryGroup =
  units :: "Unit list"
  hashCode :: nat

type_synonym Structure = nat

record StructureGroup =
  sg_structure :: Structure
  sg_group :: SymmetryGroup

record SizeTheme =
  size_name :: nat
  size_value :: nat

text \<open>
  The colour theme is the one object of the property bag that the visual writes to
  (\<^verbatim>\<open>colorTheme.structure = currentStructure\<close>), and \<^verbatim>\<open>Object.assign\<close> copies the reference
  only, so the property bags hold its address and the objects live in a heap.
\<close>

record ColorTheme =
  color_name :: nat
  color_structure :: "Structure option"

type_synonym addr = nat

record 'b Props =
  sizeTheme :: SizeTheme
  colorTheme :: addr
  unitKinds :: "Kind list"
  builderProps :: 'b

record 'b PartialProps =
  p_sizeTheme :: "SizeTheme option"
  p_colorTheme :: "addr option"
  p_unitKinds :: "Kind list option"
  p_builderProps :: "'b option"

text \<open>\<^verbatim>\<open>Object.assign({}, base, props)\<close>: the fields that \<^verbatim>\<open>props\<close> has win.\<close>

definition assign :: "'b Props \<Rightarrow> 'b PartialProps \<Rightarrow> 'b Props" where
  "assign base p =
     \<lparr> sizeTheme = (case p_sizeTheme p of None \<Rightarrow> sizeTheme base | Some x \<Rightarrow> x),
       colorTheme = (case p_colorTheme p of None \<Rightarrow> colorTheme base | Some x \<Rightarrow> x),
       unitKinds = (case p_unitKinds p of None \<Rightarrow> unitKinds base | Some x \<Rightarrow> x),
       builderProps = (case p_builderProps p of None \<Rightarrow> builderProps base | Some x \<Rightarrow> x) \<rparr>"

text \<open>
  Modelled from the spec: \<^verbatim>\<open>VisualUpdateState\<close> (its \<^verbatim>\<open>create\<close> and \<^verbatim>\<open>reset\<close>) is declared in the
  index file of the directory, which is not part of the sources at hand: four independent
  flags, all false after a reset.
\<close>

record VisualUpdateState =
  updateTransform :: bool
  updateColor :: bool
  updateSize :: bool
  createGeometry :: bool

text \<open>Modelled from the spec: \<^verbatim>\<open>VisualUpdateState.reset\<close> (and \<^verbatim>\<open>create\<close>), all flags false.\<close>

definition VisualUpdateState_reset :: VisualUpdateState where
  "VisualUpdateState_reset =
     \<lparr> updateTransform = False, updateColor = False, updateSize = False, createGeometry = False \<rparr>"

text \<open>
  Modelled from the spec: the geometries (\<^verbatim>\<open>Mesh\<close>, \<^verbatim>\<open>Points\<close>, \<^verbatim>\<open>Lines\<close>) are buffers with a
  count (\<^verbatim>\<open>triangleCount\<close>, \<^verbatim>\<open>pointCount\<close>, \<^verbatim>\<open>lineCount\<close>) and a canonical empty instance.
\<close>

record Geometry =
  elementCount :: nat
  vertexData :: "nat list"

text \<open>
  Modelled from the spec: \<^verbatim>\<open>Mesh.createEmpty\<close>, \<^verbatim>\<open>Points.createEmpty\<close>, \<^verbatim>\<open>Lines.createEmpty\<close>, the
  canonical empty geometry, whatever geometry is handed over for reuse.
\<close>

definition createEmpty :: "Geometry option \<Rightarrow> Geometry" where
  "createEmpty previous = \<lparr> elementCount = 0, vertexData = [] \<rparr>"

text \<open>
  Modelled from the spec: the location iterator (mol-geo/util/location-iterator) has the two
  counts and a cursor that \<^verbatim>\<open>reset\<close> rewinds.
\<close>

record LocationIterator =
  groupCount :: nat
  instanceCount :: nat
  cursor :: nat

text \<open>Modelled from the spec: \<^verbatim>\<open>LocationIterator.reset\<close> rewinds the cursor to slot 0.\<close>

definition reset :: "LocationIterator \<Rightarrow> LocationIterator" where
  "reset it = it\<lparr> cursor := 0 \<rparr>"

text \<open>
  Modelled from the spec: a value cell (mol-util) holds a value and a version; an update
  stores the value and marks the cell for the next upload by a new version.
\<close>

record 'a ValueCell =
  cell_value :: 'a
  version :: nat

text \<open>Modelled from the spec: \<^verbatim>\<open>ValueCell.create\<close>, a new cell.\<close>

definition ValueCell_create :: "'a \<Rightarrow> 'a ValueCell" where
  "ValueCell_create v = \<lparr> cell_value = v, version = 0 \<rparr>"

text \<open>Modelled from the spec: \<^verbatim>\<open>ValueCell.update\<close> stores the value under a new version.\<close>

definition ValueCell_update :: "'a ValueCell \<Rightarrow> 'a \<Rightarrow> 'a ValueCell" where
  "ValueCell_update c v = \<lparr> cell_value = v, version = version c + 1 \<rparr>"

text \<open>Modelled from the spec: \<^verbatim>\<open>ValueCell.updateIfChanged\<close> leaves a cell that holds the value.\<close>

definition ValueCell_updateIfChanged :: "'a ValueCell \<Rightarrow> 'a \<Rightarrow> 'a ValueCell" where
  "ValueCell_updateIfChanged c v = (if cell_value c = v then c else ValueCell_update c v)"

record Values =
  drawCount :: "nat ValueCell"
  aTransform :: "nat list ValueCell"
  tMarker :: "nat list ValueCell"
  tColor :: "nat list ValueCell"
  tSize :: "nat list ValueCell"
  uniforms :: "nat list ValueCell"

record RenderObject =
  ro_id :: nat
  ro_values :: Values
  ro_state :: nat

datatype Loci = EveryLoci | EmptyLoci | ElementLoci "nat list"

definition isEveryLoci :: "Loci option \<Rightarrow> bool" where
  "isEveryLoci x = (case x of None \<Rightarrow> False | Some l \<Rightarrow> l = EveryLoci)"

text \<open>An interval of mol-data/int, by its bounds: \<^verbatim>\<open>[start, end)\<close>.\<close>

type_synonym Interval = "nat \<times> nat"

definition ofBounds :: "nat \<Rightarrow> nat \<Rightarrow> Interval" where
  "ofBounds s e = (s, e)"

text \<open>
  The builder is the record of functions each visual is made from. \<^verbatim>\<open>createGeom\<close> stands for
  \<^verbatim>\<open>createMesh\<close>, \<^verbatim>\<open>createPoints\<close> and \<^verbatim>\<open>createLines\<close>. The builder's \<^verbatim>\<open>mark\<close> is given by the
  intervals it hands to the callback, in order; it answers whether one of the calls answered
  true, as \<^verbatim>\<open>eachNucleotideElement\<close> does (and \<^verbatim>\<open>() => false\<close>, which makes no call).
\<close>

record 'b Builder =
  defaultProps :: "'b Props"
  createGeom :: "Unit \<Rightarrow> Structure option \<Rightarrow> 'b Props \<Rightarrow> Geometry option \<Rightarrow> Geometry"
  createLocationIterator :: "SymmetryGroup \<Rightarrow> LocationIterator"
  getLociB :: "nat \<times> nat \<times> nat \<Rightarrow> SymmetryGroup \<Rightarrow> nat \<Rightarrow> Loci"
  markB :: "Loci \<Rightarrow> SymmetryGroup \<Rightarrow> Interval list"
  setUpdateState :: "VisualUpdateState \<Rightarrow> 'b Props \<Rightarrow> 'b Props \<Rightarrow> VisualUpdateState"

text \<open>
  The collaborators outside the file that compute buffer contents are parameters: the colour
  and size evaluators, the declarative values that \<^verbatim>\<open>updateValues\<close> pushes and the render
  state that \<^verbatim>\<open>updateRenderableState\<close> derives from the properties.
\<close>

record 'b Env =
  colorsOf :: "LocationIterator \<Rightarrow> ColorTheme \<Rightarrow> nat list"
  sizesOf :: "LocationIterator \<Rightarrow> SizeTheme \<Rightarrow> nat list"
  uniformsOf :: "'b Props \<Rightarrow> nat list"
  renderableStateOf :: "'b Props \<Rightarrow> nat"

datatype VisualKind = MeshVisual | PointsVisual | LinesVisual

text \<open>
  The calls that leave the file are recorded in a trace, so that "is invoked" and "is rebuilt"
  are statements about the run.
\<close>

datatype Call =
    CallCreateGeometry Unit
  | CallCreateEmpty
  | CallCreateLocationIterator
  | CallCreateRenderObject
  | CallCreateUnitsTransform
  | CallCreateMarkers nat
  | CallCreateSizes
  | CallCreateColors

datatype error = MissingGroup | TypeError

record 'b Visual =
  renderObject :: "RenderObject option"
  currentProps :: "'b Props option"
  geometry :: "Geometry option"
  currentGroup :: "SymmetryGroup option"
  currentStructure :: "Structure option"
  locationIt :: "LocationIterator option"
  currentConformationId :: "nat option"
  updateState :: VisualUpdateState
  heap :: "addr \<Rightarrow> ColorTheme"
  nextId :: nat
  trace :: "Call list"

section \<open>Collaborators of the render layer\<close>

text \<open>
  \<^verbatim>\<open>createUnitsTransform\<close>, \<^verbatim>\<open>createMarkers\<close>, \<^verbatim>\<open>createColors\<close>, \<^verbatim>\<open>createSizes\<close>, the
  \<^verbatim>\<open>updateValues\<close> of the geometries and the render-object factories are imported from files
  that are not part of the sources at hand. Each writes value cells of the render object.
\<close>

text \<open>
  Modelled from the spec: \<^verbatim>\<open>createUnitsTransform\<close> writes one transform matrix per instance,
  that is per unit of the group.
\<close>

definition createUnitsTransform :: "SymmetryGroup \<Rightarrow> Values \<Rightarrow> Values" where
  "createUnitsTransform g v =
     v\<lparr> aTransform := ValueCell_update (aTransform v) (map operator (units g)) \<rparr>"

text \<open>
  Modelled from the spec: \<^verbatim>\<open>createMarkers\<close> allocates the marker buffer anew, with the number
  of slots it is given, all unmarked.
\<close>

definition createMarkers :: "nat \<Rightarrow> Values \<Rightarrow> Values" where
  "createMarkers n v = v\<lparr> tMarker := ValueCell_update (tMarker v) (replicate n 0) \<rparr>"

text \<open>
  Modelled from the spec: \<^verbatim>\<open>createColors\<close> writes the colour buffer the theme gives over the
  iterator.
\<close>

definition createColors :: "'b Env \<Rightarrow> LocationIterator \<Rightarrow> ColorTheme \<Rightarrow> Values \<Rightarrow> Values" where
  "createColors e it theme v = v\<lparr> tColor := ValueCell_update (tColor v) (colorsOf e it theme) \<rparr>"

text \<open>
  Modelled from the spec: \<^verbatim>\<open>createSizes\<close> writes the size buffer the theme gives over the
  iterator.
\<close>

definition createSizes :: "'b Env \<Rightarrow> LocationIterator \<Rightarrow> SizeTheme \<Rightarrow> Values \<Rightarrow> Values" where
  "createSizes e it theme v = v\<lparr> tSize := ValueCell_update (tSize v) (sizesOf e it theme) \<rparr>"

text \<open>
  Modelled from the spec: \<^verbatim>\<open>updateValues\<close> pushes the declarative values of the properties
  into their cells; it writes no buffer.
\<close>

definition updateValues :: "'b Env \<Rightarrow> Values \<Rightarrow> 'b Props \<Rightarrow> Values" where
  "updateValues e v p = v\<lparr> uniforms := ValueCell_updateIfChanged (uniforms v) (uniformsOf e p) \<rparr>"

text \<open>
  The draw count of a geometry: \<^verbatim>\<open>mesh.triangleCount * 3\<close>, \<^verbatim>\<open>points.pointCount\<close>,
  \<^verbatim>\<open>lines.lineCount\<close> (lines 121, 272 and 427).
\<close>

definition drawCountOf :: "VisualKind \<Rightarrow> Geometry \<Rightarrow> nat" where
  "drawCountOf k g = (case k of MeshVisual \<Rightarrow> elementCount g * 3 | _ \<Rightarrow> elementCount g)"

text \<open>
  Modelled from the spec: the factory returns a new render object whose buffers are sized
  from the geometry and from the counts of the iterator, and filled from the properties.
\<close>

definition createUnitsRenderObject ::
  "VisualKind \<Rightarrow> 'b Env \<Rightarrow> nat \<Rightarrow> SymmetryGroup \<Rightarrow> Geometry \<Rightarrow> LocationIterator \<Rightarrow> 'b Props
     \<Rightarrow> ColorTheme \<Rightarrow> RenderObject" where
  "createUnitsRenderObject k e i g geo it p theme =
     \<lparr> ro_id = i,
       ro_values =
         \<lparr> drawCount = ValueCell_create (drawCountOf k geo),
           aTransform = ValueCell_create (map operator (units g)),
           tMarker = ValueCell_create (replicate (instanceCount it * groupCount it) 0),
           tColor = ValueCell_create (colorsOf e it theme),
           tSize = ValueCell_create
                     (case k of MeshVisual \<Rightarrow> [] | _ \<Rightarrow> sizesOf e it (sizeTheme p)),
           uniforms = ValueCell_create (uniformsOf e p) \<rparr>,
       ro_state = renderableStateOf e p \<rparr>"

section \<open>create\<close>

text \<open>\<^verbatim>\<open>props.colorTheme.structure = currentStructure\<close>, a write to the shared theme object.\<close>

definition bindStructure :: "'b Props \<Rightarrow> 'b Visual \<Rightarrow> 'b Visual" where
  "bindStructure p w =
     w\<lparr> heap := (heap w)(colorTheme p :=
           (heap w (colorTheme p))\<lparr> color_structure := currentStructure w \<rparr>) \<rparr>"

text \<open>
  The geometry of the representative unit: the builder is asked only when the kind of the
  unit is among \<^verbatim>\<open>unitKinds\<close>, otherwise the empty geometry is taken (lines 75-77 and 118-120).
\<close>

definition buildGeometry :: "'b Builder \<Rightarrow> Unit \<Rightarrow> 'b Props \<Rightarrow> 'b Visual \<Rightarrow> 'b Visual" where
  "buildGeometry b unit p w =
     (if kind unit \<in> set (unitKinds p)
      then w\<lparr> geometry := Some (createGeom b unit (currentStructure w) p (geometry w)),
              trace := trace w @ [CallCreateGeometry unit] \<rparr>
      else w\<lparr> geometry := Some (createEmpty (geometry w)),
              trace := trace w @ [CallCreateEmpty] \<rparr>)"

text \<open>
  \<^verbatim>\<open>create\<close> (lines 68-82). \<^verbatim>\<open>group.units[0]\<close> of a group without units is undefined and
  \<^verbatim>\<open>Unit.conformationId\<close> of it throws, after the first three assignments.
\<close>

definition create ::
  "VisualKind \<Rightarrow> 'b Builder \<Rightarrow> 'b Env \<Rightarrow> SymmetryGroup \<Rightarrow> 'b PartialProps \<Rightarrow> 'b Visual
     \<Rightarrow> error option \<times> 'b Visual" where
  "create k b e g props w =
     (let cp = assign (defaultProps b) props;
          w1 = (bindStructure cp (w\<lparr> currentProps := Some cp \<rparr>))\<lparr> currentGroup := Some g \<rparr>
      in case units g of
           [] \<Rightarrow> (Some TypeError, w1)
         | unit # _ \<Rightarrow>
             let w2 = buildGeometry b unit cp (w1\<lparr> currentConformationId := Some (conformationId unit) \<rparr>);
                 it = createLocationIterator b g;
                 ro = createUnitsRenderObject k e (nextId w2) g (the (geometry w2)) it cp
                        (heap w2 (colorTheme cp))
             in (None, w2\<lparr> locationIt := Some it,
                          renderObject := Some ro,
                          nextId := nextId w2 + 1,
                          trace := trace w2 @ [CallCreateLocationIterator, CallCreateRenderObject] \<rparr>))"

section \<open>update\<close>

definition setCreateGeometry :: "'b Visual \<Rightarrow> 'b Visual" where
  "setCreateGeometry w = w\<lparr> updateState := (updateState w)\<lparr> createGeometry := True \<rparr> \<rparr>"

definition setUpdateTransform :: "'b Visual \<Rightarrow> 'b Visual" where
  "setUpdateTransform w = w\<lparr> updateState := (updateState w)\<lparr> updateTransform := True \<rparr> \<rparr>"

definition setUpdateSize :: "'b Visual \<Rightarrow> 'b Visual" where
  "setUpdateSize w = w\<lparr> updateState := (updateState w)\<lparr> updateSize := True \<rparr> \<rparr>"

definition setUpdateColor :: "'b Visual \<Rightarrow> 'b Visual" where
  "setUpdateColor w = w\<lparr> updateState := (updateState w)\<lparr> updateColor := True \<rparr> \<rparr>"

text \<open>
  \<^verbatim>\<open>deepEqual\<close> of two colour themes compares the objects the two references point to.
\<close>

definition deepEqualColorTheme :: "'b Visual \<Rightarrow> addr \<Rightarrow> addr \<Rightarrow> bool" where
  "deepEqualColorTheme w a c = (heap w a = heap w c)"

text \<open>Lines 95-99, the same in the three visuals.\<close>

definition diffConformation :: "Unit \<Rightarrow> 'b Visual \<Rightarrow> 'b Visual" where
  "diffConformation unit w =
     (let newConformationId = conformationId unit
      in if Some newConformationId \<noteq> currentConformationId w
         then setCreateGeometry (w\<lparr> currentConformationId := Some newConformationId \<rparr>)
         else w)"

text \<open>The rules of the mesh visual, lines 95-105.\<close>

definition diffMesh ::
  "Unit \<Rightarrow> SymmetryGroup \<Rightarrow> LocationIterator \<Rightarrow> 'b Props \<Rightarrow> 'b Props \<Rightarrow> 'b Visual \<Rightarrow> 'b Visual" where
  "diffMesh unit cg it newProps cp w =
     (let w1 = diffConformation unit w;
          w2 = (if length (units cg) \<noteq> instanceCount it then setUpdateTransform w1 else w1);
          w3 = (if \<not> (sizeTheme newProps = sizeTheme cp) then setCreateGeometry w2 else w2);
          w4 = (if \<not> deepEqualColorTheme w3 (colorTheme newProps) (colorTheme cp)
                then setUpdateColor w3 else w3);
          w5 = (if \<not> (unitKinds newProps = unitKinds cp) then setCreateGeometry w4 else w4)
      in w5)"

text \<open>The rules of the points visual, lines 246-256.\<close>

definition diffPoints ::
  "Unit \<Rightarrow> SymmetryGroup \<Rightarrow> LocationIterator \<Rightarrow> 'b Props \<Rightarrow> 'b Props \<Rightarrow> 'b Visual \<Rightarrow> 'b Visual" where
  "diffPoints unit cg it newProps cp w =
     (let w1 = diffConformation unit w;
          w2 = (if length (units cg) \<noteq> instanceCount it then setUpdateTransform w1 else w1);
          w3 = (if \<not> (sizeTheme newProps = sizeTheme cp) then setUpdateSize w2 else w2);
          w4 = (if \<not> deepEqualColorTheme w3 (colorTheme newProps) (colorTheme cp)
                then setUpdateColor w3 else w3);
          w5 = (if \<not> (unitKinds newProps = unitKinds cp) then setCreateGeometry w4 else w4)
      in w5)"

text \<open>The rules of the lines visual, lines 401-411.\<close>

definition diffLines ::
  "Unit \<Rightarrow> SymmetryGroup \<Rightarrow> LocationIterator \<Rightarrow> 'b Props \<Rightarrow> 'b Props \<Rightarrow> 'b Visual \<Rightarrow> 'b Visual" where
  "diffLines unit cg it newProps cp w =
     (let w1 = diffConformation unit w;
          w2 = (if length (units cg) \<noteq> instanceCount it then setUpdateTransform w1 else w1);
          w3 = (if \<not> (sizeTheme newProps = sizeTheme cp) then setUpdateSize w2 else w2);
          w4 = (if \<not> deepEqualColorTheme w3 (colorTheme newProps) (colorTheme cp)
                then setUpdateColor w3 else w3);
          w5 = (if \<not> (unitKinds newProps = unitKinds cp) then setCreateGeometry w4 else w4)
      in w5)"

definition diffRules ::
  "VisualKind \<Rightarrow> Unit \<Rightarrow> SymmetryGroup \<Rightarrow> LocationIterator \<Rightarrow> 'b Props \<Rightarrow> 'b Props \<Rightarrow> 'b Visual
     \<Rightarrow> 'b Visual" where
  "diffRules k = (case k of MeshVisual \<Rightarrow> diffMesh | PointsVisual \<Rightarrow> diffPoints | LinesVisual \<Rightarrow> diffLines)"

text \<open>The render object is mutated in place: its value cells are written through the reference.\<close>

definition modifyValues :: "(Values \<Rightarrow> Values) \<Rightarrow> 'b Visual \<Rightarrow> 'b Visual" where
  "modifyValues f w =
     w\<lparr> renderObject := map_option (\<lambda>ro. ro\<lparr> ro_values := f (ro_values ro) \<rparr>) (renderObject w) \<rparr>"

text \<open>Lines 109-115.\<close>

definition transformStep :: "'b Builder \<Rightarrow> SymmetryGroup \<Rightarrow> 'b Visual \<Rightarrow> 'b Visual" where
  "transformStep b cg w =
     (if updateTransform (updateState w)
      then let it = createLocationIterator b cg;
               w1 = w\<lparr> locationIt := Some it, trace := trace w @ [CallCreateLocationIterator] \<rparr>;
               w2 = (modifyValues (createUnitsTransform cg) w1)
                      \<lparr> trace := trace w1 @ [CallCreateUnitsTransform] \<rparr>;
               w3 = (modifyValues (createMarkers (instanceCount it * groupCount it)) w2)
                      \<lparr> trace := trace w2 @ [CallCreateMarkers (instanceCount it * groupCount it)] \<rparr>
           in setUpdateColor w3
      else w)"

text \<open>Lines 117-123.\<close>

definition geometryStep ::
  "VisualKind \<Rightarrow> 'b Builder \<Rightarrow> Unit \<Rightarrow> 'b Props \<Rightarrow> 'b Visual \<Rightarrow> 'b Visual" where
  "geometryStep k b unit newProps w =
     (if createGeometry (updateState w)
      then let w1 = buildGeometry b unit newProps w;
               w2 = modifyValues
                      (\<lambda>v. v\<lparr> drawCount :=
                                ValueCell_update (drawCount v) (drawCountOf k (the (geometry w1))) \<rparr>) w1
           in setUpdateColor w2
      else w)"

text \<open>Lines 276-278 and 431-433; the mesh visual has no such block.\<close>

definition sizeStep :: "VisualKind \<Rightarrow> 'b Env \<Rightarrow> 'b Props \<Rightarrow> 'b Visual \<Rightarrow> 'b Visual" where
  "sizeStep k e newProps w =
     (if k \<noteq> MeshVisual \<and> updateSize (updateState w)
      then (modifyValues (createSizes e (the (locationIt w)) (sizeTheme newProps)) w)
             \<lparr> trace := trace w @ [CallCreateSizes] \<rparr>
      else w)"

text \<open>Lines 125-127.\<close>

definition colorStep :: "'b Env \<Rightarrow> 'b Props \<Rightarrow> 'b Visual \<Rightarrow> 'b Visual" where
  "colorStep e newProps w =
     (if updateColor (updateState w)
      then (modifyValues (createColors e (the (locationIt w)) (heap w (colorTheme newProps))) w)
             \<lparr> trace := trace w @ [CallCreateColors] \<rparr>
      else w)"

text \<open>Lines 130-133.\<close>

definition finishStep :: "'b Env \<Rightarrow> 'b Props \<Rightarrow> 'b Visual \<Rightarrow> 'b Visual" where
  "finishStep e newProps w =
     w\<lparr> renderObject :=
          map_option (\<lambda>ro. ro\<lparr> ro_values := updateValues e (ro_values ro) newProps,
                               ro_state := renderableStateOf e newProps \<rparr>) (renderObject w),
        currentProps := Some newProps \<rparr>"

text \<open>
  \<^verbatim>\<open>update\<close> (lines 84-134). A variable that is still undefined makes the first member
  access on it throw; so does \<^verbatim>\<open>Unit.conformationId\<close> of the missing first unit (line 95).
\<close>

definition update ::
  "VisualKind \<Rightarrow> 'b Builder \<Rightarrow> 'b Env \<Rightarrow> 'b PartialProps \<Rightarrow> 'b Visual \<Rightarrow> error option \<times> 'b Visual" where
  "update k b e props w =
     (case renderObject w of
        None \<Rightarrow> (None, w)
      | Some _ \<Rightarrow>
         (case currentProps w of
            None \<Rightarrow> (Some TypeError, w)
          | Some cp \<Rightarrow>
             let newProps = assign cp props;
                 w1 = bindStructure newProps w
             in (case currentGroup w1 of
                   None \<Rightarrow> (Some TypeError, w1)
                 | Some cg \<Rightarrow>
                    (case locationIt w1 of
                       None \<Rightarrow> (Some TypeError, w1)
                     | Some it \<Rightarrow>
                        let w2 = w1\<lparr> locationIt := Some (reset it) \<rparr>;
                            w3 = w2\<lparr> updateState :=
                                       setUpdateState b VisualUpdateState_reset newProps cp \<rparr>
                        in (case units cg of
                              [] \<Rightarrow> (Some TypeError, w3)
                            | unit # _ \<Rightarrow>
                               let w4 = diffRules k unit cg (reset it) newProps cp w3;
                                   w5 = transformStep b cg w4;
                                   w6 = geometryStep k b unit newProps w5;
                                   w7 = sizeStep k e newProps w6;
                                   w8 = colorStep e newProps w7
                               in (None, finishStep e newProps w8))))))"

section \<open>createOrUpdate\<close>

text \<open>
  \<^verbatim>\<open>sameGroupConformation\<close> (lines 32-37). \<^verbatim>\<open>&&\<close> does not evaluate its right side when the
  lengths differ; when both groups have no unit the right side throws.
\<close>

definition sameGroupConformation :: "SymmetryGroup \<Rightarrow> SymmetryGroup \<Rightarrow> error + bool" where
  "sameGroupConformation groupA groupB =
     (if length (units groupA) = length (units groupB)
      then (case units groupA of
              [] \<Rightarrow> Inl TypeError
            | ua # _ \<Rightarrow>
               (case units groupB of
                  [] \<Rightarrow> Inl TypeError
                | ub # _ \<Rightarrow> Inr (conformationId ua = conformationId ub)))
      else Inr False)"

text \<open>\<^verbatim>\<open>createOrUpdate\<close> (lines 138-157, 293-312, 448-467).\<close>

definition createOrUpdate ::
  "VisualKind \<Rightarrow> 'b Builder \<Rightarrow> 'b Env \<Rightarrow> 'b PartialProps \<Rightarrow> StructureGroup option \<Rightarrow> 'b Visual
     \<Rightarrow> error option \<times> 'b Visual" where
  "createOrUpdate k b e props structureGroup w =
     (let w0 = (case structureGroup of
                  None \<Rightarrow> w
                | Some sg \<Rightarrow> w\<lparr> currentStructure := Some (sg_structure sg) \<rparr>);
          group = map_option sg_group structureGroup
      in if group = None \<and> currentGroup w0 = None then (Some MissingGroup, w0)
         else if group \<noteq> None \<and> (currentGroup w0 = None \<or> renderObject w0 = None)
         then create k b e (the group) props w0
         else if group \<noteq> None \<and> hashCode (the group) \<noteq> hashCode (the (currentGroup w0))
         then create k b e (the group) props w0
         else (case group of
                 None \<Rightarrow> update k b e props w0
               | Some g \<Rightarrow>
                  (case sameGroupConformation g (the (currentGroup w0)) of
                     Inl err \<Rightarrow> (Some err, w0)
                   | Inr same \<Rightarrow>
                      update k b e props (if \<not> same then w0\<lparr> currentGroup := Some g \<rparr> else w0))))"

section \<open>mark\<close>

text \<open>
  Modelled from the spec: \<^verbatim>\<open>MarkerAction\<close> is imported from geometry/marker-data, which is
  not part of the sources at hand: highlight, select and clear.
\<close>

datatype MarkerAction = Highlight | Select | Clear

text \<open>
  Modelled from the spec: what an action makes of one marker byte. The byte has a highlight
  bit (1) and a select bit (2); an action sets one of them or clears the byte.
\<close>

definition applyMarker :: "MarkerAction \<Rightarrow> nat \<Rightarrow> nat" where
  "applyMarker a v =
     (case a of
        Highlight \<Rightarrow> (if v mod 2 = 0 then v + 1 else v)
      | Select \<Rightarrow> (if v < 2 then v + 2 else v)
      | Clear \<Rightarrow> 0)"

text \<open>
  Modelled from the spec: the loop of \<^verbatim>\<open>applyMarkerAction\<close> over the slots of \<^verbatim>\<open>[start, end)\<close>
  that the array has; it remembers whether a byte became different.
\<close>

function applyMarkerLoop :: "MarkerAction \<Rightarrow> nat \<Rightarrow> nat \<Rightarrow> nat list \<Rightarrow> bool \<Rightarrow> nat list \<times> bool" where
  "applyMarkerLoop a i e arr changed =
     (if i < e
      then (if i < length arr
            then applyMarkerLoop a (Suc i) e (arr[i := applyMarker a (arr ! i)])
                   (arr ! i \<noteq> applyMarker a (arr ! i) \<or> changed)
            else applyMarkerLoop a (Suc i) e arr changed)
      else (arr, changed))"
  by pat_completeness auto
termination
  by (relation "measure (\<lambda>(a, i, e, arr, changed). e - i)") auto

text \<open>
  Modelled from the spec: \<^verbatim>\<open>applyMarkerAction\<close> (geometry/marker-data) answers the array and
  whether a byte changed.
\<close>

definition applyMarkerAction :: "nat list \<Rightarrow> nat \<Rightarrow> nat \<Rightarrow> MarkerAction \<Rightarrow> nat list \<times> bool" where
  "applyMarkerAction arr s e a = applyMarkerLoop a s e arr False"

text \<open>
  The callback \<^verbatim>\<open>apply\<close> of \<^verbatim>\<open>mark\<close> (lines 166-170) writes into the array of the marker cell
  in place, which leaves the version of the cell as it is.
\<close>

definition apply_interval :: "MarkerAction \<Rightarrow> Interval \<Rightarrow> Values \<Rightarrow> bool \<times> Values" where
  "apply_interval action interval v =
     (let r = applyMarkerAction (cell_value (tMarker v)) (fst interval) (snd interval) action
      in (snd r, v\<lparr> tMarker := (tMarker v)\<lparr> cell_value := fst r \<rparr> \<rparr>))"

text \<open>
  The builder's \<^verbatim>\<open>mark\<close> run against the callback: every interval is applied, and the answer
  is true when one of the calls was (\<^verbatim>\<open>if (apply(...)) changed = true\<close>).
\<close>

fun apply_intervals :: "MarkerAction \<Rightarrow> Interval list \<Rightarrow> bool \<Rightarrow> Values \<Rightarrow> bool \<times> Values" where
  "apply_intervals action [] changed v = (changed, v)"
| "apply_intervals action (interval # rest) changed v =
     (let r = apply_interval action interval v
      in apply_intervals action rest (if fst r then True else changed) (snd r))"

text \<open>
  \<^verbatim>\<open>mark\<close> (lines 161-182, 316-337, 471-492). Without an iterator the destructuring of
  line 164 throws; a builder handed an undefined group is taken to throw as well.
\<close>

definition mark ::
  "'b Builder \<Rightarrow> Loci \<Rightarrow> MarkerAction \<Rightarrow> 'b Visual \<Rightarrow> (error + bool) \<times> 'b Visual" where
  "mark b loci action w =
     (case renderObject w of
        None \<Rightarrow> (Inr False, w)
      | Some ro \<Rightarrow>
         (case locationIt w of
            None \<Rightarrow> (Inl TypeError, w)
          | Some it \<Rightarrow>
             let r = (if isEveryLoci (Some loci)
                      then Inr (apply_interval action
                                  (ofBounds 0 (groupCount it * instanceCount it)) (ro_values ro))
                      else (case currentGroup w of
                              None \<Rightarrow> Inl TypeError
                            | Some cg \<Rightarrow>
                               Inr (apply_intervals action (markB b loci cg) False (ro_values ro))))
             in (case r of
                   Inl err \<Rightarrow> (Inl err, w)
                 | Inr (changed, v) \<Rightarrow>
                    let v' = (if changed
                              then v\<lparr> tMarker := ValueCell_update (tMarker v) (cell_value (tMarker v)) \<rparr>
                              else v)
                    in (Inr changed, w\<lparr> renderObject := Some (ro\<lparr> ro_values := v' \<rparr>) \<rparr>))))"

text \<open>\<^verbatim>\<open>destroy\<close> (lines 183-186).\<close>

definition destroy :: "'b Visual \<Rightarrow> 'b Visual" where
  "destroy w = w\<lparr> renderObject := None \<rparr>"

text \<open>The visual as the constructor leaves it: nothing is defined yet.\<close>

definition initialVisual :: "(addr \<Rightarrow> ColorTheme) \<Rightarrow> 'b Visual" where
  "initialVisual h =
     \<lparr> renderObject = None, currentProps = None, geometry = None, currentGroup = None,
       currentStructure = None, locationIt = None, currentConformationId = None,
       updateState = VisualUpdateState_reset, heap = h, nextId = 0, trace = [] \<rparr>"

section \<open>A builder to run the visuals on\<close>

text \<open>
  The builder of the Gaussian density point visual (\<^verbatim>\<open>GaussianDensityPointVisual\<close>): its
  \<^verbatim>\<open>setUpdateState\<close> asks for a new geometry when one of three numbers changed, it marks
  nothing and its iterator has one instance per unit. The density computation is outside
  the sources at hand; the geometry below stands for it, one element per unit of resolution.
\<close>

record GaussianProps =
  resolutionFactor :: nat
  radiusOffset :: nat
  smoothness :: nat

definition gaussianSetUpdateState ::
  "VisualUpdateState \<Rightarrow> GaussianProps Props \<Rightarrow> GaussianProps Props \<Rightarrow> VisualUpdateState" where
  "gaussianSetUpdateState state newProps cp =
     (let s1 = (if resolutionFactor (builderProps newProps) \<noteq> resolutionFactor (builderProps cp)
                then state\<lparr> createGeometry := True \<rparr> else state);
          s2 = (if radiusOffset (builderProps newProps) \<noteq> radiusOffset (builderProps cp)
                then s1\<lparr> createGeometry := True \<rparr> else s1);
          s3 = (if smoothness (builderProps newProps) \<noteq> smoothness (builderProps cp)
                then s2\<lparr> createGeometry := True \<rparr> else s2)
      in s3)"

definition gaussianBuilder :: "GaussianProps Builder" where
  "gaussianBuilder =
     \<lparr> defaultProps =
         \<lparr> sizeTheme = \<lparr> size_name = 0, size_value = 1 \<rparr>,
           colorTheme = 0,
           unitKinds = [Atomic, Spheres],
           builderProps = \<lparr> resolutionFactor = 2, radiusOffset = 0, smoothness = 1 \<rparr> \<rparr>,
       createGeom = (\<lambda>unit s p previous.
          \<lparr> elementCount = resolutionFactor (builderProps p),
            vertexData = replicate (resolutionFactor (builderProps p)) (conformationId unit) \<rparr>),
       createLocationIterator = (\<lambda>g.
          \<lparr> groupCount = 4, instanceCount = length (units g), cursor = 0 \<rparr>),
       getLociB = (\<lambda>pickingId g i. EmptyLoci),
       markB = (\<lambda>loci g. []),
       setUpdateState = gaussianSetUpdateState \<rparr>"

definition exampleEnv :: "GaussianProps Env" where
  "exampleEnv =
     \<lparr> colorsOf = (\<lambda>it theme. replicate (groupCount it * instanceCount it) (color_name theme)),
       sizesOf = (\<lambda>it theme. replicate (groupCount it * instanceCount it) (size_value theme)),
       uniformsOf = (\<lambda>p. [size_value (sizeTheme p)]),
       renderableStateOf = (\<lambda>p. 1) \<rparr>"

definition noProps :: "GaussianProps PartialProps" where
  "noProps = \<lparr> p_sizeTheme = None, p_colorTheme = None, p_unitKinds = None, p_builderProps = None \<rparr>"

definition exampleHeap :: "addr \<Rightarrow> ColorTheme" where
  "exampleHeap = (\<lambda>a. \<lparr> color_name = a, color_structure = None \<rparr>)"

definition exampleUnit :: "nat \<Rightarrow> Kind \<Rightarrow> nat \<Rightarrow> Unit" where
  "exampleUnit i k c = \<lparr> unit_id = i, kind = k, conformationId = c, operator = i \<rparr>"

text \<open>Two symmetry copies of an atomic unit, in the coordinate frame 1.\<close>

definition groupA :: SymmetryGroup where
  "groupA = \<lparr> units = [exampleUnit 0 Atomic 1, exampleUnit 1 Atomic 1], hashCode = 7 \<rparr>"

text \<open>The same shape and the same first unit; the second unit is in the frame 2.\<close>

definition groupB :: SymmetryGroup where
  "groupB = \<lparr> units = [exampleUnit 0 Atomic 1, exampleUnit 1 Atomic 2], hashCode = 7 \<rparr>"

text \<open>The same shape in the frame 2.\<close>

definition groupC :: SymmetryGroup where
  "groupC = \<lparr> units = [exampleUnit 0 Atomic 2, exampleUnit 1 Atomic 2], hashCode = 7 \<rparr>"

text \<open>The same shape and frame as \<open>groupA\<close>, with a third copy.\<close>

definition groupD :: SymmetryGroup where
  "groupD = \<lparr> units = [exampleUnit 0 Atomic 1, exampleUnit 1 Atomic 1, exampleUnit 2 Atomic 1],
              hashCode = 7 \<rparr>"

text \<open>The shape and the frame of \<open>groupA\<close>; the second copy is under another operator.\<close>

definition groupF :: SymmetryGroup where
  "groupF = \<lparr> units = [exampleUnit 0 Atomic 1, exampleUnit 3 Atomic 1], hashCode = 7 \<rparr>"

text \<open>
  The shape and the frame of \<open>groupA\<close> once more, as a single unit of spheres: a coarse
  unit that has the conformation id 1.
\<close>

definition groupG :: SymmetryGroup where
  "groupG = \<lparr> units = [exampleUnit 5 Spheres 1], hashCode = 7 \<rparr>"

text \<open>Another shape.\<close>

definition groupE :: SymmetryGroup where
  "groupE = \<lparr> units = [exampleUnit 5 Spheres 3], hashCode = 9 \<rparr>"

definition structureGroupOf :: "SymmetryGroup \<Rightarrow> StructureGroup" where
  "structureGroupOf g = \<lparr> sg_structure = 1, sg_group = g \<rparr>"

text \<open>The visual after its first call, with \<open>groupA\<close>.\<close>

definition createdWith :: "VisualKind \<Rightarrow> SymmetryGroup \<Rightarrow> GaussianProps Visual" where
  "createdWith k g =
     snd (createOrUpdate k gaussianBuilder exampleEnv noProps (Some (structureGroupOf g))
            (initialVisual exampleHeap))"

text \<open>Properties that leave only atomic units to be shown.\<close>

definition atomicOnly :: "GaussianProps PartialProps" where
  "atomicOnly = noProps\<lparr> p_unitKinds := Some [Atomic] \<rparr>"

text \<open>The mesh visual after its first call, with \<open>groupA\<close> and atomic units only.\<close>

definition createdAtomicOnly :: "GaussianProps Visual" where
  "createdAtomicOnly =
     snd (createOrUpdate MeshVisual gaussianBuilder exampleEnv atomicOnly
            (Some (structureGroupOf groupA)) (initialVisual exampleHeap))"

text \<open>
  A builder that marks whole units, as the bulk path of \<^verbatim>\<open>eachNucleotideElement\<close> does: a
  locus that covers the unit with index \<open>unitIdx\<close> gives the interval
  \<^verbatim>\<open>[unitIdx * groupCount, unitIdx * groupCount + groupCount)\<close>, with the \<^verbatim>\<open>groupCount\<close> 4 of
  the iterator above; units the group does not have are skipped.
\<close>

definition unitMark :: "Loci \<Rightarrow> SymmetryGroup \<Rightarrow> Interval list" where
  "unitMark loci g =
     (case loci of
        ElementLoci unitIndices \<Rightarrow>
          map (\<lambda>unitIdx. ofBounds (unitIdx * 4) (unitIdx * 4 + 4))
            (filter (\<lambda>unitIdx. unitIdx < length (units g)) unitIndices)
      | _ \<Rightarrow> [])"

definition markingBuilder :: "GaussianProps Builder" where
  "markingBuilder = gaussianBuilder\<lparr> markB := unitMark \<rparr>"

text \<open>The value cells of the render object, when there is one.\<close>

definition valuesOf :: "'b Visual \<Rightarrow> Values option" where
  "valuesOf w = map_option ro_values (renderObject w)"

text \<open>The contents of the value cells, without their versions.\<close>

definition bufferContents ::
  "Values \<Rightarrow> nat \<times> nat list \<times> nat list \<times> nat list \<times> nat list \<times> nat list" where
  "bufferContents v =
     (cell_value (drawCount v), cell_value (aTransform v), cell_value (tMarker v),
      cell_value (tColor v), cell_value (tSize v), cell_value (uniforms v))"

section \<open>Running the model\<close>

lemmas flag_defs =
  setCreateGeometry_def setUpdateTransform_def setUpdateSize_def setUpdateColor_def

lemmas cell_defs =
  ValueCell_create_def ValueCell_update_def ValueCell_updateIfChanged_def

lemmas step_defs =
  diffRules_def diffMesh_def diffPoints_def diffLines_def diffConformation_def
  transformStep_def geometryStep_def sizeStep_def colorStep_def finishStep_def
  modifyValues_def buildGeometry_def bindStructure_def
  createUnitsTransform_def createMarkers_def createColors_def createSizes_def updateValues_def
  drawCountOf_def createEmpty_def reset_def VisualUpdateState_reset_def deepEqualColorTheme_def

lemmas example_defs =
  createdWith_def initialVisual_def structureGroupOf_def
  groupA_def groupB_def groupC_def groupD_def groupE_def groupF_def groupG_def exampleUnit_def
  atomicOnly_def createdAtomicOnly_def
  noProps_def gaussianBuilder_def exampleEnv_def exampleHeap_def gaussianSetUpdateState_def

lemmas run_defs =
  createOrUpdate_def create_def update_def sameGroupConformation_def assign_def
  createUnitsRenderObject_def Let_def flag_defs cell_defs step_defs example_defs

section \<open>What the steps leave alone\<close>

lemma currentGroup_diffRules [simp]:
  "currentGroup (diffRules k unit cg it np cp w) = currentGroup w"
  by (cases k) (simp_all add: diffRules_def diffMesh_def diffPoints_def diffLines_def
      diffConformation_def flag_defs Let_def)

lemma currentGroup_transformStep [simp]: "currentGroup (transformStep b cg w) = currentGroup w"
  by (simp add: transformStep_def modifyValues_def flag_defs Let_def)

lemma currentGroup_geometryStep [simp]:
  "currentGroup (geometryStep k b unit np w) = currentGroup w"
  by (simp add: geometryStep_def buildGeometry_def modifyValues_def flag_defs Let_def)

lemma currentGroup_sizeStep [simp]: "currentGroup (sizeStep k e np w) = currentGroup w"
  by (simp add: sizeStep_def modifyValues_def)

lemma currentGroup_colorStep [simp]: "currentGroup (colorStep e np w) = currentGroup w"
  by (simp add: colorStep_def modifyValues_def)

lemma currentGroup_finishStep [simp]: "currentGroup (finishStep e np w) = currentGroup w"
  by (simp add: finishStep_def)

lemma currentGroup_bindStructure [simp]: "currentGroup (bindStructure p w) = currentGroup w"
  by (simp add: bindStructure_def)

lemma currentGroup_update: "currentGroup (snd (update k b e props w)) = currentGroup w"
  by (simp add: update_def Let_def split: option.split list.split)

lemma currentGroup_create: "currentGroup (snd (create k b e g props w)) = Some g"
  by (simp add: create_def buildGeometry_def Let_def split: list.split)

section \<open>The decision of createOrUpdate\<close>

lemma create_not_missing: "fst (create k b e g props w) \<noteq> Some MissingGroup"
  by (simp add: create_def Let_def split: list.split)

lemma update_not_missing: "fst (update k b e props w) \<noteq> Some MissingGroup"
  by (simp add: update_def Let_def split: option.split list.split)

lemma sameGroupConformation_error: "sameGroupConformation a c = Inl err \<Longrightarrow> err = TypeError"
  by (auto simp: sameGroupConformation_def split: if_splits list.splits)

text \<open>The chain of \<^verbatim>\<open>createOrUpdate\<close> when a group is supplied.\<close>

lemma createOrUpdate_Some:
  "createOrUpdate k b e props (Some sg) w =
     (let w0 = w\<lparr> currentStructure := Some (sg_structure sg) \<rparr>; g = sg_group sg
      in case currentGroup w of
           None \<Rightarrow> create k b e g props w0
         | Some cg \<Rightarrow>
            if renderObject w = None \<or> hashCode g \<noteq> hashCode cg then create k b e g props w0
            else (case sameGroupConformation g cg of
                    Inl err \<Rightarrow> (Some err, w0)
                  | Inr same \<Rightarrow>
                     update k b e props (if same then w0 else w0\<lparr> currentGroup := Some g \<rparr>)))"
  by (auto simp: createOrUpdate_def Let_def split: option.split sum.split)

text \<open>After a call that succeeded, the current group has the shape of the supplied one.\<close>

lemma createOrUpdate_hashCode:
  assumes "createOrUpdate k b e props (Some sg) w = (None, w')"
  shows "\<exists>cg. currentGroup w' = Some cg \<and> hashCode cg = hashCode (sg_group sg)"
proof -
  have c: "currentGroup (snd (create k b e (sg_group sg) props w0)) = Some (sg_group sg)" for w0
    by (rule currentGroup_create)
  have u: "currentGroup (snd (update k b e props w0)) = currentGroup w0" for w0
    by (rule currentGroup_update)
  from assms have "w' = snd (createOrUpdate k b e props (Some sg) w)" by simp
  then show ?thesis
    using assms
    by (auto simp: createOrUpdate_Some Let_def c u split: option.splits if_splits sum.splits)
qed

lemma create_success:
  assumes "units g = unit # rest"
  shows "fst (create k b e g props w) = None"
    and "locationIt (snd (create k b e g props w)) = Some (createLocationIterator b g)"
    and "\<exists>ro. renderObject (snd (create k b e g props w)) = Some ro \<and> ro_id ro = nextId w"
    and "geometry (snd (create k b e g props w)) =
           Some (if kind unit \<in> set (unitKinds (assign (defaultProps b) props))
                 then createGeom b unit (currentStructure w) (assign (defaultProps b) props) (geometry w)
                 else createEmpty (geometry w))"
    and "trace (snd (create k b e g props w)) =
           trace w @ [if kind unit \<in> set (unitKinds (assign (defaultProps b) props))
                      then CallCreateGeometry unit else CallCreateEmpty,
                      CallCreateLocationIterator, CallCreateRenderObject]"
  using assms
  by (simp_all add: create_def buildGeometry_def bindStructure_def createUnitsRenderObject_def Let_def)

text \<open>
  C9. \<^verbatim>\<open>createOrUpdate\<close> fails with the missing-group error exactly when no structure group
  is passed and the visual has no current group; that call returns the error to its caller
  and leaves every variable of the visual as it was.
\<close>

theorem createOrUpdate_missing_group:
  "(fst (createOrUpdate k b e props structureGroup w) = Some MissingGroup)
     = (structureGroup = None \<and> currentGroup w = None)
   \<and> (structureGroup = None \<and> currentGroup w = None
        \<longrightarrow> createOrUpdate k b e props structureGroup w = (Some MissingGroup, w))"
proof (intro conjI impI)
  assume "structureGroup = None \<and> currentGroup w = None"
  then show "createOrUpdate k b e props structureGroup w = (Some MissingGroup, w)"
    by (simp add: createOrUpdate_def)
next
  show "(fst (createOrUpdate k b e props structureGroup w) = Some MissingGroup)
     = (structureGroup = None \<and> currentGroup w = None)"
  proof (cases structureGroup)
    case None
    then show ?thesis
      by (simp add: createOrUpdate_def update_not_missing)
  next
    case (Some sg)
    have "fst (createOrUpdate k b e props (Some sg) w) \<noteq> Some MissingGroup"
      using sameGroupConformation_error [of "sg_group sg"]
      by (auto simp: createOrUpdate_def Let_def create_not_missing update_not_missing
               split: sum.splits)
    with Some show ?thesis by simp
  qed
qed

theorem createOrUpdate_missing_group_witness:
  "currentGroup (initialVisual exampleHeap :: GaussianProps Visual) = None
   \<and> createOrUpdate PointsVisual gaussianBuilder exampleEnv noProps None (initialVisual exampleHeap)
       = (Some MissingGroup, initialVisual exampleHeap)
   \<and> fst (createOrUpdate PointsVisual gaussianBuilder exampleEnv noProps None
            (createdWith PointsVisual groupA)) \<noteq> Some MissingGroup"
proof -
  have h: "currentGroup (initialVisual exampleHeap :: GaussianProps Visual) = None"
    by (simp add: initialVisual_def)
  have g: "currentGroup (createdWith PointsVisual groupA) \<noteq> None"
    by (simp add: createdWith_def createOrUpdate_Some initialVisual_def currentGroup_create)
  show ?thesis
    using h g
      createOrUpdate_missing_group [of PointsVisual gaussianBuilder exampleEnv noProps None
        "initialVisual exampleHeap"]
      createOrUpdate_missing_group [of PointsVisual gaussianBuilder exampleEnv noProps None
        "createdWith PointsVisual groupA"]
    by simp
qed

text \<open>
  C3. When a call with a group \<open>A\<close> has succeeded, a call with a group \<open>B\<close> of another
  \<^verbatim>\<open>hashCode\<close> is the create path: it is \<^verbatim>\<open>create\<close> run on \<open>B\<close>, which (for a group that has a
  unit) builds the geometry anew, takes a new location iterator for \<open>B\<close> and asks the
  factory for a new render object. The update path never asks for a render object.
\<close>

theorem shape_change_takes_create_path:
  assumes first: "createOrUpdate k b e p1 (Some sgA) w0 = (None, w1)"
    and hash: "hashCode (sg_group sgA) \<noteq> hashCode (sg_group sgB)"
  shows "createOrUpdate k b e p2 (Some sgB) w1
           = create k b e (sg_group sgB) p2 (w1\<lparr> currentStructure := Some (sg_structure sgB) \<rparr>)
     \<and> (\<forall>unit rest. units (sg_group sgB) = unit # rest \<longrightarrow>
          fst (createOrUpdate k b e p2 (Some sgB) w1) = None
        \<and> geometry (snd (createOrUpdate k b e p2 (Some sgB) w1)) =
            Some (if kind unit \<in> set (unitKinds (assign (defaultProps b) p2))
                  then createGeom b unit (Some (sg_structure sgB)) (assign (defaultProps b) p2)
                         (geometry w1)
                  else createEmpty (geometry w1))
        \<and> locationIt (snd (createOrUpdate k b e p2 (Some sgB) w1))
            = Some (createLocationIterator b (sg_group sgB))
        \<and> (\<exists>ro. renderObject (snd (createOrUpdate k b e p2 (Some sgB) w1)) = Some ro
                 \<and> ro_id ro = nextId w1)
        \<and> trace (snd (createOrUpdate k b e p2 (Some sgB) w1)) =
            trace w1 @ [if kind unit \<in> set (unitKinds (assign (defaultProps b) p2))
                        then CallCreateGeometry unit else CallCreateEmpty,
                        CallCreateLocationIterator, CallCreateRenderObject])"
proof -
  from createOrUpdate_hashCode [OF first] obtain cg
    where cg: "currentGroup w1 = Some cg" "hashCode cg = hashCode (sg_group sgA)" by blast
  have eq: "createOrUpdate k b e p2 (Some sgB) w1
           = create k b e (sg_group sgB) p2 (w1\<lparr> currentStructure := Some (sg_structure sgB) \<rparr>)"
    using cg hash by (simp add: createOrUpdate_Some)
  have "fst (createOrUpdate k b e p2 (Some sgB) w1) = None
        \<and> geometry (snd (createOrUpdate k b e p2 (Some sgB) w1)) =
            Some (if kind unit \<in> set (unitKinds (assign (defaultProps b) p2))
                  then createGeom b unit (Some (sg_structure sgB)) (assign (defaultProps b) p2)
                         (geometry w1)
                  else createEmpty (geometry w1))
        \<and> locationIt (snd (createOrUpdate k b e p2 (Some sgB) w1))
            = Some (createLocationIterator b (sg_group sgB))
        \<and> (\<exists>ro. renderObject (snd (createOrUpdate k b e p2 (Some sgB) w1)) = Some ro
                 \<and> ro_id ro = nextId w1)
        \<and> trace (snd (createOrUpdate k b e p2 (Some sgB) w1)) =
            trace w1 @ [if kind unit \<in> set (unitKinds (assign (defaultProps b) p2))
                        then CallCreateGeometry unit else CallCreateEmpty,
                        CallCreateLocationIterator, CallCreateRenderObject]"
    if nonempty: "units (sg_group sgB) = unit # rest" for unit rest
    unfolding eq
    using create_success [OF nonempty, of k b e p2
        "w1\<lparr> currentStructure := Some (sg_structure sgB) \<rparr>"]
    by simp
  with eq show ?thesis by blast
qed

theorem shape_change_takes_create_path_witness:
  "createOrUpdate PointsVisual gaussianBuilder exampleEnv noProps (Some (structureGroupOf groupA))
     (initialVisual exampleHeap) = (None, createdWith PointsVisual groupA)
   \<and> hashCode (sg_group (structureGroupOf groupA)) \<noteq> hashCode (sg_group (structureGroupOf groupE))
   \<and> units (sg_group (structureGroupOf groupE)) = [exampleUnit 5 Spheres 3]
   \<and> trace (snd (createOrUpdate PointsVisual gaussianBuilder exampleEnv noProps
                   (Some (structureGroupOf groupE)) (createdWith PointsVisual groupA)))
       = [CallCreateGeometry (exampleUnit 0 Atomic 1), CallCreateLocationIterator,
          CallCreateRenderObject,
          CallCreateGeometry (exampleUnit 5 Spheres 3), CallCreateLocationIterator,
          CallCreateRenderObject]"
proof -
  have h1: "createOrUpdate PointsVisual gaussianBuilder exampleEnv noProps
              (Some (structureGroupOf groupA)) (initialVisual exampleHeap)
            = (None, createdWith PointsVisual groupA)"
    by (simp add: createdWith_def prod_eq_iff) (simp add: run_defs)
  have h2: "hashCode (sg_group (structureGroupOf groupA))
              \<noteq> hashCode (sg_group (structureGroupOf groupE))"
    by (simp add: example_defs)
  have h3: "units (sg_group (structureGroupOf groupE)) = [exampleUnit 5 Spheres 3]"
    by (simp add: structureGroupOf_def groupE_def)
  have t: "trace (createdWith PointsVisual groupA)
             = [CallCreateGeometry (exampleUnit 0 Atomic 1), CallCreateLocationIterator,
                CallCreateRenderObject]"
    by (simp add: run_defs)
  have k: "kind (exampleUnit 5 Spheres 3)
             \<in> set (unitKinds (assign (defaultProps gaussianBuilder) noProps))"
    by (simp add: assign_def example_defs)
  from shape_change_takes_create_path [OF h1 h2, of noProps]
  have "trace (snd (createOrUpdate PointsVisual gaussianBuilder exampleEnv noProps
                   (Some (structureGroupOf groupE)) (createdWith PointsVisual groupA)))
          = trace (createdWith PointsVisual groupA)
              @ [if kind (exampleUnit 5 Spheres 3)
                      \<in> set (unitKinds (assign (defaultProps gaussianBuilder) noProps))
                 then CallCreateGeometry (exampleUnit 5 Spheres 3) else CallCreateEmpty,
                 CallCreateLocationIterator, CallCreateRenderObject]"
    using h3 by blast
  with h1 h2 h3 t k show ?thesis by simp
qed

text \<open>
  C1, as the code has it. In the update path a supplied group of the current \<^verbatim>\<open>hashCode\<close> is
  adopted as the current group, before \<^verbatim>\<open>update\<close> runs, exactly when
  \<^verbatim>\<open>sameGroupConformation\<close> answers false: when its number of units, or the conformation id
  of its first unit, is not that of the current group. Otherwise the current group is kept.
\<close>

theorem createOrUpdate_adopts_new_conformation:
  assumes "currentGroup w = Some cg" and "renderObject w = Some ro"
    and "hashCode (sg_group sg) = hashCode cg"
    and "sameGroupConformation (sg_group sg) cg = Inr same"
  shows "createOrUpdate k b e props (Some sg) w
           = update k b e props
               (w\<lparr> currentStructure := Some (sg_structure sg),
                   currentGroup := Some (if same then cg else sg_group sg) \<rparr>)
     \<and> currentGroup (snd (createOrUpdate k b e props (Some sg) w))
           = Some (if same then cg else sg_group sg)
     \<and> same = (length (units (sg_group sg)) = length (units cg)
                 \<and> map conformationId (take 1 (units (sg_group sg)))
                     = map conformationId (take 1 (units cg)))"
proof -
  have w: "w\<lparr> currentStructure := Some (sg_structure sg), currentGroup := Some cg \<rparr>
             = w\<lparr> currentStructure := Some (sg_structure sg) \<rparr>"
    using assms(1) by simp
  have eq: "createOrUpdate k b e props (Some sg) w
           = update k b e props
               (w\<lparr> currentStructure := Some (sg_structure sg),
                   currentGroup := Some (if same then cg else sg_group sg) \<rparr>)"
    using assms(1-4) by (cases same) (simp_all add: createOrUpdate_Some w)
  have cur: "currentGroup (snd (createOrUpdate k b e props (Some sg) w))
           = Some (if same then cg else sg_group sg)"
    unfolding eq by (simp add: currentGroup_update)
  have same: "same = (length (units (sg_group sg)) = length (units cg)
                 \<and> map conformationId (take 1 (units (sg_group sg)))
                     = map conformationId (take 1 (units cg)))"
    using assms(4) by (auto simp: sameGroupConformation_def split: if_splits list.splits)
  from eq cur same show ?thesis by blast
qed

theorem createOrUpdate_adopts_new_conformation_witness:
  "currentGroup (createdWith PointsVisual groupA) = Some groupA
   \<and> renderObject (createdWith PointsVisual groupA) \<noteq> None
   \<and> hashCode (sg_group (structureGroupOf groupC)) = hashCode groupA
   \<and> sameGroupConformation (sg_group (structureGroupOf groupC)) groupA = Inr False
   \<and> currentGroup (snd (createOrUpdate PointsVisual gaussianBuilder exampleEnv noProps
                          (Some (structureGroupOf groupC)) (createdWith PointsVisual groupA)))
       = Some groupC"
proof -
  have h1: "currentGroup (createdWith PointsVisual groupA) = Some groupA"
    by (simp add: createdWith_def createOrUpdate_Some initialVisual_def currentGroup_create
        structureGroupOf_def)
  obtain ro where h2: "renderObject (createdWith PointsVisual groupA) = Some ro"
    by (simp add: run_defs)
  have h3: "hashCode (sg_group (structureGroupOf groupC)) = hashCode groupA"
    by (simp add: example_defs)
  have h4: "sameGroupConformation (sg_group (structureGroupOf groupC)) groupA = Inr False"
    by (simp add: sameGroupConformation_def example_defs)
  from createOrUpdate_adopts_new_conformation [OF h1 h2 h3 h4, of PointsVisual gaussianBuilder
        exampleEnv noProps]
  have "currentGroup (snd (createOrUpdate PointsVisual gaussianBuilder exampleEnv noProps
                          (Some (structureGroupOf groupC)) (createdWith PointsVisual groupA)))
          = Some (if False then groupA else sg_group (structureGroupOf groupC))"
    by blast
  with h1 h2 h3 h4 show ?thesis by (simp add: structureGroupOf_def)
qed

text \<open>
  C1 as it is written fails: \<open>groupF\<close> has the \<^verbatim>\<open>hashCode\<close> of the current group \<open>groupA\<close> and
  is another group (its second unit is another symmetry copy), the call is the update path
  (no collaborator is called), and the visual keeps \<open>groupA\<close>.
\<close>

theorem adoption_counterexample:
  "currentGroup (createdWith PointsVisual groupA) = Some groupA
   \<and> hashCode groupF = hashCode groupA
   \<and> groupF \<noteq> groupA
   \<and> fst (createOrUpdate PointsVisual gaussianBuilder exampleEnv noProps
            (Some (structureGroupOf groupF)) (createdWith PointsVisual groupA)) = None
   \<and> trace (snd (createOrUpdate PointsVisual gaussianBuilder exampleEnv noProps
                   (Some (structureGroupOf groupF)) (createdWith PointsVisual groupA)))
       = trace (createdWith PointsVisual groupA)
   \<and> currentGroup (snd (createOrUpdate PointsVisual gaussianBuilder exampleEnv noProps
                          (Some (structureGroupOf groupF)) (createdWith PointsVisual groupA)))
       \<noteq> Some groupF"
  by (simp add: run_defs)

section \<open>The flags of an update pass\<close>

lemma update_run:
  assumes "renderObject w = Some ro" and "currentProps w = Some cp"
    and "currentGroup w = Some cg" and "locationIt w = Some it" and "units cg = unit # rest"
  shows "update k b e props w =
           (None,
            finishStep e (assign cp props)
             (colorStep e (assign cp props)
               (sizeStep k e (assign cp props)
                 (geometryStep k b unit (assign cp props)
                   (transformStep b cg
                     (diffRules k unit cg (reset it) (assign cp props) cp
                       ((bindStructure (assign cp props) w)
                          \<lparr> locationIt := Some (reset it),
                            updateState := setUpdateState b VisualUpdateState_reset
                                             (assign cp props) cp \<rparr>)))))))"
  using assms by (simp add: update_def Let_def bindStructure_def)

lemma createGeometry_diffRules:
  "createGeometry (updateState (diffRules k unit cg it np cp w)) =
     (createGeometry (updateState w) \<or> Some (conformationId unit) \<noteq> currentConformationId w
      \<or> (k = MeshVisual \<and> sizeTheme np \<noteq> sizeTheme cp) \<or> unitKinds np \<noteq> unitKinds cp)"
  by (cases k) (auto simp: diffRules_def diffMesh_def diffPoints_def diffLines_def
      diffConformation_def flag_defs Let_def)

lemma updateTransform_diffRules:
  "updateTransform (updateState (diffRules k unit cg it np cp w)) =
     (updateTransform (updateState w) \<or> length (units cg) \<noteq> instanceCount it)"
  by (cases k) (auto simp: diffRules_def diffMesh_def diffPoints_def diffLines_def
      diffConformation_def flag_defs Let_def)

lemma updateSize_diffRules:
  "updateSize (updateState (diffRules k unit cg it np cp w)) =
     (updateSize (updateState w) \<or> (k \<noteq> MeshVisual \<and> sizeTheme np \<noteq> sizeTheme cp))"
  by (cases k) (auto simp: diffRules_def diffMesh_def diffPoints_def diffLines_def
      diffConformation_def flag_defs Let_def)

lemma updateColor_diffRules:
  "updateColor (updateState (diffRules k unit cg it np cp w)) =
     (updateColor (updateState w) \<or> heap w (colorTheme np) \<noteq> heap w (colorTheme cp))"
  by (cases k) (auto simp: diffRules_def diffMesh_def diffPoints_def diffLines_def
      diffConformation_def flag_defs deepEqualColorTheme_def Let_def)

lemma updateState_transformStep:
  "updateState (transformStep b cg w) =
     (updateState w)\<lparr> updateColor := updateColor (updateState w) \<or> updateTransform (updateState w) \<rparr>"
  by (simp add: transformStep_def modifyValues_def flag_defs Let_def)

lemma updateState_geometryStep:
  "updateState (geometryStep k b unit np w) =
     (updateState w)\<lparr> updateColor := updateColor (updateState w) \<or> createGeometry (updateState w) \<rparr>"
  by (simp add: geometryStep_def buildGeometry_def modifyValues_def flag_defs Let_def)

lemma updateState_sizeStep [simp]: "updateState (sizeStep k e np w) = updateState w"
  by (simp add: sizeStep_def modifyValues_def)

lemma updateState_colorStep [simp]: "updateState (colorStep e np w) = updateState w"
  by (simp add: colorStep_def modifyValues_def)

lemma updateState_finishStep [simp]: "updateState (finishStep e np w) = updateState w"
  by (simp add: finishStep_def)


lemma update_group_flags:
  assumes len: "length (units g1) = length (units g2)"
    and conf: "map conformationId (take 1 (units g1)) = map conformationId (take 1 (units g2))"
  shows "fst (update k b e props (w\<lparr> currentGroup := Some g1 \<rparr>))
           = fst (update k b e props (w\<lparr> currentGroup := Some g2 \<rparr>))
       \<and> updateState (snd (update k b e props (w\<lparr> currentGroup := Some g1 \<rparr>)))
           = updateState (snd (update k b e props (w\<lparr> currentGroup := Some g2 \<rparr>)))"
proof (cases "units g1")
  case Nil
  with len have "units g2 = []" by simp
  with Nil show ?thesis
    by (simp add: update_def Let_def bindStructure_def split: option.split)
next
  case (Cons u1 r1)
  with len obtain u2 r2 where g2: "units g2 = u2 # r2" by (cases "units g2") auto
  from conf Cons g2 have c: "conformationId u1 = conformationId u2" by simp
  show ?thesis
  proof (cases "renderObject w = None \<or> currentProps w = None \<or> locationIt w = None")
    case True
    then show ?thesis
      by (auto simp: update_def Let_def bindStructure_def split: option.split)
  next
    case False
    then obtain ro cp it where s: "renderObject w = Some ro" "currentProps w = Some cp"
      "locationIt w = Some it" by auto
    have r1: "update k b e props (w\<lparr> currentGroup := Some g1 \<rparr>) = (None,
            finishStep e (assign cp props)
             (colorStep e (assign cp props)
               (sizeStep k e (assign cp props)
                 (geometryStep k b u1 (assign cp props)
                   (transformStep b g1
                     (diffRules k u1 g1 (reset it) (assign cp props) cp
                       ((bindStructure (assign cp props) (w\<lparr> currentGroup := Some g1 \<rparr>))
                          \<lparr> locationIt := Some (reset it),
                            updateState := setUpdateState b VisualUpdateState_reset
                                             (assign cp props) cp \<rparr>)))))))"
      by (rule update_run [where ro = ro and rest = r1]) (simp_all add: s Cons)
    have r2: "update k b e props (w\<lparr> currentGroup := Some g2 \<rparr>) = (None,
            finishStep e (assign cp props)
             (colorStep e (assign cp props)
               (sizeStep k e (assign cp props)
                 (geometryStep k b u2 (assign cp props)
                   (transformStep b g2
                     (diffRules k u2 g2 (reset it) (assign cp props) cp
                       ((bindStructure (assign cp props) (w\<lparr> currentGroup := Some g2 \<rparr>))
                          \<lparr> locationIt := Some (reset it),
                            updateState := setUpdateState b VisualUpdateState_reset
                                             (assign cp props) cp \<rparr>)))))))"
      by (rule update_run [where ro = ro and rest = r2]) (simp_all add: s g2)
    show ?thesis
      unfolding r1 r2
      by (simp add: updateState_transformStep updateState_geometryStep
          createGeometry_diffRules updateTransform_diffRules updateSize_diffRules
          updateColor_diffRules bindStructure_def c len
          VisualUpdateState.equality)
  qed
qed

text \<open>
  C10. Two groups of the current \<^verbatim>\<open>hashCode\<close> that have the same number of units and the same
  conformation id in their first unit are treated alike by the update path:
  \<^verbatim>\<open>sameGroupConformation\<close> gives the same answer (so both are adopted or both are not), the
  call fails or succeeds alike, and the flags of the update pass, \<^verbatim>\<open>createGeometry\<close> among
  them, are the same. The other units are not read.
\<close>

theorem adoption_reads_count_and_first_conformation:
  assumes "currentGroup w = Some cg" and "renderObject w = Some ro"
    and "hashCode g1 = hashCode cg" and "hashCode g2 = hashCode cg"
    and len: "length (units g1) = length (units g2)"
    and conf: "map conformationId (take 1 (units g1)) = map conformationId (take 1 (units g2))"
  shows "sameGroupConformation g1 cg = sameGroupConformation g2 cg
     \<and> fst (createOrUpdate k b e props (Some \<lparr> sg_structure = s, sg_group = g1 \<rparr>) w)
         = fst (createOrUpdate k b e props (Some \<lparr> sg_structure = s, sg_group = g2 \<rparr>) w)
     \<and> updateState (snd (createOrUpdate k b e props (Some \<lparr> sg_structure = s, sg_group = g1 \<rparr>) w))
         = updateState (snd (createOrUpdate k b e props (Some \<lparr> sg_structure = s, sg_group = g2 \<rparr>) w))"
proof -
  have same: "sameGroupConformation g1 cg = sameGroupConformation g2 cg"
    using len conf
    by (cases "units g1"; cases "units g2"; cases "units cg")
       (auto simp: sameGroupConformation_def)
  show ?thesis
  proof (cases "sameGroupConformation g1 cg")
    case (Inl err)
    moreover from Inl same have "sameGroupConformation g2 cg = Inl err" by simp
    ultimately show ?thesis using assms(1-4) by (simp add: createOrUpdate_Some)
  next
    case (Inr sm)
    from Inr same have s2: "sameGroupConformation g2 cg = Inr sm" by simp
    show ?thesis
    proof (cases sm)
      case True
      with Inr s2 assms(1-4) show ?thesis by (simp add: createOrUpdate_Some)
    next
      case False
      with Inr s2 assms(1-4) show ?thesis
        using update_group_flags [OF len conf, of k b e props "w\<lparr> currentStructure := Some s \<rparr>"]
        by (simp add: createOrUpdate_Some)
    qed
  qed
qed

theorem adoption_reads_count_and_first_conformation_witness:
  "currentGroup (createdWith PointsVisual groupA) = Some groupA
   \<and> renderObject (createdWith PointsVisual groupA) \<noteq> None
   \<and> hashCode groupB = hashCode groupA
   \<and> length (units groupB) = length (units groupA)
   \<and> map conformationId (take 1 (units groupB)) = map conformationId (take 1 (units groupA))
   \<and> groupB \<noteq> groupA
   \<and> sameGroupConformation groupB groupA = sameGroupConformation groupA groupA
   \<and> updateState (snd (createOrUpdate PointsVisual gaussianBuilder exampleEnv noProps
         (Some \<lparr> sg_structure = 1, sg_group = groupB \<rparr>) (createdWith PointsVisual groupA)))
       = updateState (snd (createOrUpdate PointsVisual gaussianBuilder exampleEnv noProps
         (Some \<lparr> sg_structure = 1, sg_group = groupA \<rparr>) (createdWith PointsVisual groupA)))"
proof -
  have h1: "currentGroup (createdWith PointsVisual groupA) = Some groupA"
    by (simp add: createdWith_def createOrUpdate_Some initialVisual_def currentGroup_create
        structureGroupOf_def)
  obtain ro where h2: "renderObject (createdWith PointsVisual groupA) = Some ro"
    by (simp add: run_defs)
  have h3: "hashCode groupB = hashCode groupA" by (simp add: example_defs)
  have h4: "hashCode groupA = hashCode groupA" by simp
  have h5: "length (units groupB) = length (units groupA)" by (simp add: example_defs)
  have h6: "map conformationId (take 1 (units groupB)) = map conformationId (take 1 (units groupA))"
    by (simp add: example_defs)
  have h7: "groupB \<noteq> groupA" by (simp add: example_defs)
  from adoption_reads_count_and_first_conformation [OF h1 h2 h3 h4 h5 h6, of PointsVisual
      gaussianBuilder exampleEnv noProps 1]
  show ?thesis using h1 h2 h3 h5 h6 h7 by simp
qed

section \<open>The effect of the steps on the render object, the iterator and the trace\<close>

lemma valuesOf_modifyValues: "valuesOf (modifyValues f w) = map_option f (valuesOf w)"
  by (simp add: valuesOf_def modifyValues_def option.map_comp comp_def)

lemma valuesOf_diffRules [simp]: "valuesOf (diffRules k unit cg it np cp w) = valuesOf w"
  by (cases k) (simp_all add: valuesOf_def diffRules_def diffMesh_def diffPoints_def diffLines_def
      diffConformation_def flag_defs Let_def)

lemma valuesOf_transformStep:
  "valuesOf (transformStep b cg w) =
     (if updateTransform (updateState w)
      then map_option (\<lambda>v. createMarkers (instanceCount (createLocationIterator b cg)
                                           * groupCount (createLocationIterator b cg))
                              (createUnitsTransform cg v)) (valuesOf w)
      else valuesOf w)"
  by (simp add: valuesOf_def transformStep_def modifyValues_def flag_defs Let_def
      option.map_comp comp_def)

lemma valuesOf_geometryStep:
  "valuesOf (geometryStep k b unit np w) =
     (if createGeometry (updateState w)
      then map_option (\<lambda>v. v\<lparr> drawCount := ValueCell_update (drawCount v)
               (drawCountOf k (the (geometry (buildGeometry b unit np w)))) \<rparr>) (valuesOf w)
      else valuesOf w)"
  by (simp add: valuesOf_def geometryStep_def modifyValues_def flag_defs Let_def
      buildGeometry_def option.map_comp comp_def)

lemma valuesOf_sizeStep:
  "valuesOf (sizeStep k e np w) =
     (if k \<noteq> MeshVisual \<and> updateSize (updateState w)
      then map_option (createSizes e (the (locationIt w)) (sizeTheme np)) (valuesOf w)
      else valuesOf w)"
  by (simp add: valuesOf_def sizeStep_def modifyValues_def option.map_comp comp_def)

lemma valuesOf_colorStep:
  "valuesOf (colorStep e np w) =
     (if updateColor (updateState w)
      then map_option (createColors e (the (locationIt w)) (heap w (colorTheme np))) (valuesOf w)
      else valuesOf w)"
  by (simp add: valuesOf_def colorStep_def modifyValues_def option.map_comp comp_def)

lemma valuesOf_finishStep:
  "valuesOf (finishStep e np w) = map_option (\<lambda>v. updateValues e v np) (valuesOf w)"
  by (simp add: valuesOf_def finishStep_def option.map_comp comp_def)

lemmas valuesOf_steps = valuesOf_transformStep valuesOf_geometryStep valuesOf_sizeStep
  valuesOf_colorStep valuesOf_finishStep

lemma locationIt_diffRules [simp]: "locationIt (diffRules k unit cg it np cp w) = locationIt w"
  by (cases k) (simp_all add: diffRules_def diffMesh_def diffPoints_def diffLines_def
      diffConformation_def flag_defs Let_def)

lemma locationIt_transformStep:
  "locationIt (transformStep b cg w) =
     (if updateTransform (updateState w) then Some (createLocationIterator b cg) else locationIt w)"
  by (simp add: transformStep_def modifyValues_def flag_defs Let_def)

lemma locationIt_geometryStep [simp]: "locationIt (geometryStep k b unit np w) = locationIt w"
  by (simp add: geometryStep_def buildGeometry_def modifyValues_def flag_defs Let_def)

lemma locationIt_sizeStep [simp]: "locationIt (sizeStep k e np w) = locationIt w"
  by (simp add: sizeStep_def modifyValues_def)

lemma locationIt_colorStep [simp]: "locationIt (colorStep e np w) = locationIt w"
  by (simp add: colorStep_def modifyValues_def)

lemma locationIt_finishStep [simp]: "locationIt (finishStep e np w) = locationIt w"
  by (simp add: finishStep_def)

lemma trace_diffRules [simp]: "trace (diffRules k unit cg it np cp w) = trace w"
  by (cases k) (simp_all add: diffRules_def diffMesh_def diffPoints_def diffLines_def
      diffConformation_def flag_defs Let_def)

lemma trace_transformStep:
  "trace (transformStep b cg w) =
     (if updateTransform (updateState w)
      then trace w @ [CallCreateLocationIterator, CallCreateUnitsTransform,
                      CallCreateMarkers (instanceCount (createLocationIterator b cg)
                                         * groupCount (createLocationIterator b cg))]
      else trace w)"
  by (simp add: transformStep_def modifyValues_def flag_defs Let_def)

lemma trace_geometryStep:
  "trace (geometryStep k b unit np w) =
     (if createGeometry (updateState w)
      then trace w @ [if kind unit \<in> set (unitKinds np) then CallCreateGeometry unit
                      else CallCreateEmpty]
      else trace w)"
  by (simp add: geometryStep_def buildGeometry_def modifyValues_def flag_defs Let_def)

lemma trace_sizeStep:
  "trace (sizeStep k e np w) =
     (if k \<noteq> MeshVisual \<and> updateSize (updateState w) then trace w @ [CallCreateSizes] else trace w)"
  by (simp add: sizeStep_def modifyValues_def)

lemma trace_colorStep:
  "trace (colorStep e np w) =
     (if updateColor (updateState w) then trace w @ [CallCreateColors] else trace w)"
  by (simp add: colorStep_def modifyValues_def)

lemma trace_finishStep [simp]: "trace (finishStep e np w) = trace w"
  by (simp add: finishStep_def)

lemmas trace_steps = trace_transformStep trace_geometryStep trace_sizeStep trace_colorStep

lemmas updateState_steps = updateState_transformStep updateState_geometryStep
  createGeometry_diffRules updateTransform_diffRules updateSize_diffRules updateColor_diffRules

lemma trace_later_steps:
  "\<exists>xs. trace (finishStep e np (colorStep e np (sizeStep k e np (geometryStep k b unit np w))))
          = trace w @ xs"
  by (simp add: trace_steps)

lemma cells_later_steps:
  "map_option tMarker (valuesOf (finishStep e np (colorStep e np (sizeStep k e np
       (geometryStep k b unit np w))))) = map_option tMarker (valuesOf w)"
  "map_option aTransform (valuesOf (finishStep e np (colorStep e np (sizeStep k e np
       (geometryStep k b unit np w))))) = map_option aTransform (valuesOf w)"
  by (simp_all add: valuesOf_steps option.map_comp comp_def createSizes_def createColors_def
      updateValues_def)

text \<open>
  C5. In an update pass whose \<^verbatim>\<open>updateTransform\<close> flag is set, by the builder or because the
  number of units of the current group is not the \<^verbatim>\<open>instanceCount\<close> of the iterator, the
  iterator is taken anew from the current group, the transforms are written again (one per
  unit), the marker buffer is allocated anew with exactly \<^verbatim>\<open>instanceCount * groupCount\<close> slots
  of the new iterator, and \<^verbatim>\<open>updateColor\<close> is set, so that the pass ends with the colours.
\<close>

theorem transform_rebuild:
  assumes "renderObject w = Some ro" and "currentProps w = Some cp"
    and "currentGroup w = Some cg" and "locationIt w = Some it" and "units cg = unit # rest"
    and flag: "updateTransform (setUpdateState b VisualUpdateState_reset (assign cp props) cp)
               \<or> length (units cg) \<noteq> instanceCount it"
  shows "fst (update k b e props w) = None
     \<and> locationIt (snd (update k b e props w)) = Some (createLocationIterator b cg)
     \<and> (\<exists>v. valuesOf (snd (update k b e props w)) = Some v
            \<and> cell_value (tMarker v)
                = replicate (instanceCount (createLocationIterator b cg)
                             * groupCount (createLocationIterator b cg)) 0
            \<and> length (cell_value (tMarker v))
                = instanceCount (createLocationIterator b cg) * groupCount (createLocationIterator b cg)
            \<and> version (tMarker v) = version (tMarker (ro_values ro)) + 1
            \<and> cell_value (aTransform v) = map operator (units cg)
            \<and> version (aTransform v) = version (aTransform (ro_values ro)) + 1)
     \<and> updateTransform (updateState (snd (update k b e props w)))
     \<and> updateColor (updateState (snd (update k b e props w)))
     \<and> take 3 (drop (length (trace w)) (trace (snd (update k b e props w))))
         = [CallCreateLocationIterator, CallCreateUnitsTransform,
            CallCreateMarkers (instanceCount (createLocationIterator b cg)
                               * groupCount (createLocationIterator b cg))]
     \<and> last (trace (snd (update k b e props w))) = CallCreateColors"
proof -
  let ?np = "assign cp props"
  let ?w3 = "(bindStructure ?np w)\<lparr> locationIt := Some (reset it),
               updateState := setUpdateState b VisualUpdateState_reset ?np cp \<rparr>"
  let ?w4 = "diffRules k unit cg (reset it) ?np cp ?w3"
  let ?w5 = "transformStep b cg ?w4"
  let ?w6 = "geometryStep k b unit ?np ?w5"
  let ?w7 = "sizeStep k e ?np ?w6"
  let ?w8 = "colorStep e ?np ?w7"
  have run: "update k b e props w = (None, finishStep e ?np ?w8)"
    using assms(1-5) by (rule update_run)
  have t4: "updateTransform (updateState ?w4)"
    using flag by (simp add: updateTransform_diffRules reset_def)
  have v3: "valuesOf ?w3 = Some (ro_values ro)"
    using assms(1) by (simp add: valuesOf_def bindStructure_def)
  have tr3: "trace ?w3 = trace w" by (simp add: bindStructure_def)
  have c7: "updateColor (updateState ?w7)"
    using t4 by (simp add: updateState_steps)
  show ?thesis
    unfolding run fst_conv snd_conv
  proof (intro conjI)
    show "None = None" by simp
    show "locationIt (finishStep e ?np ?w8) = Some (createLocationIterator b cg)"
      using t4 by (simp add: locationIt_transformStep)
    show "updateTransform (updateState (finishStep e ?np ?w8))"
      using t4 by (simp add: updateState_steps)
    show "updateColor (updateState (finishStep e ?np ?w8))"
      using c7 by simp
    show "last (trace (finishStep e ?np ?w8)) = CallCreateColors"
      using c7 by (simp add: trace_colorStep)
    show "take 3 (drop (length (trace w)) (trace (finishStep e ?np ?w8)))
         = [CallCreateLocationIterator, CallCreateUnitsTransform,
            CallCreateMarkers (instanceCount (createLocationIterator b cg)
                               * groupCount (createLocationIterator b cg))]"
    proof -
      have "trace ?w5 = trace w @ [CallCreateLocationIterator, CallCreateUnitsTransform,
            CallCreateMarkers (instanceCount (createLocationIterator b cg)
                               * groupCount (createLocationIterator b cg))]"
        using t4 by (simp add: trace_transformStep tr3)
      moreover obtain xs where "trace (finishStep e ?np ?w8) = trace ?w5 @ xs"
        using trace_later_steps [of e ?np k b unit ?w5] by blast
      ultimately show ?thesis by simp
    qed
    show "\<exists>v. valuesOf (finishStep e ?np ?w8) = Some v
            \<and> cell_value (tMarker v)
                = replicate (instanceCount (createLocationIterator b cg)
                             * groupCount (createLocationIterator b cg)) 0
            \<and> length (cell_value (tMarker v))
                = instanceCount (createLocationIterator b cg) * groupCount (createLocationIterator b cg)
            \<and> version (tMarker v) = version (tMarker (ro_values ro)) + 1
            \<and> cell_value (aTransform v) = map operator (units cg)
            \<and> version (aTransform v) = version (aTransform (ro_values ro)) + 1"
    proof -
      let ?n = "instanceCount (createLocationIterator b cg) * groupCount (createLocationIterator b cg)"
      have v5: "valuesOf ?w5 = Some (createMarkers ?n (createUnitsTransform cg (ro_values ro)))"
        using t4 by (simp add: valuesOf_transformStep v3)
      from cells_later_steps [of e ?np k b unit ?w5]
      have m: "map_option tMarker (valuesOf (finishStep e ?np ?w8))
                 = Some (tMarker (createMarkers ?n (createUnitsTransform cg (ro_values ro))))"
        and a: "map_option aTransform (valuesOf (finishStep e ?np ?w8))
                 = Some (aTransform (createMarkers ?n (createUnitsTransform cg (ro_values ro))))"
        by (simp_all add: v5)
      from m obtain v where v: "valuesOf (finishStep e ?np ?w8) = Some v" by auto
      from m a v have "tMarker v = ValueCell_update (tMarker (ro_values ro)) (replicate ?n 0)"
        and "aTransform v = ValueCell_update (aTransform (ro_values ro)) (map operator (units cg))"
        by (simp_all add: createMarkers_def createUnitsTransform_def)
      with v show ?thesis by (simp add: ValueCell_update_def)
    qed
  qed
qed

theorem transform_rebuild_witness:
  "renderObject ((createdWith PointsVisual groupA)\<lparr> currentGroup := Some groupD \<rparr>) \<noteq> None
   \<and> length (units groupD) \<noteq> 2
   \<and> locationIt (snd (update PointsVisual gaussianBuilder exampleEnv noProps
         ((createdWith PointsVisual groupA)\<lparr> currentGroup := Some groupD \<rparr>)))
       = Some \<lparr> groupCount = 4, instanceCount = 3, cursor = 0 \<rparr>
   \<and> map_option (\<lambda>v. length (cell_value (tMarker v)))
         (valuesOf (snd (update PointsVisual gaussianBuilder exampleEnv noProps
            ((createdWith PointsVisual groupA)\<lparr> currentGroup := Some groupD \<rparr>)))) = Some 12"
proof -
  let ?w = "(createdWith PointsVisual groupA)\<lparr> currentGroup := Some groupD \<rparr>"
  let ?ro = "the (renderObject (createdWith PointsVisual groupA))"
  let ?cp = "the (currentProps (createdWith PointsVisual groupA))"
  let ?it = "\<lparr> groupCount = 4, instanceCount = 2, cursor = 0 \<rparr>"
  let ?u = "exampleUnit 0 Atomic 1"
  let ?r = "[exampleUnit 1 Atomic 1, exampleUnit 2 Atomic 1]"
  have h1: "renderObject ?w = Some ?ro" by (simp add: run_defs)
  have h2: "currentProps ?w = Some ?cp" by (simp add: run_defs)
  have h3: "currentGroup ?w = Some groupD" by simp
  have h4: "locationIt ?w = Some ?it" by (simp add: run_defs)
  have h5: "units groupD = ?u # ?r" by (simp add: groupD_def)
  have h6: "updateTransform (setUpdateState gaussianBuilder VisualUpdateState_reset
              (assign ?cp noProps) ?cp) \<or> length (units groupD) \<noteq> instanceCount ?it"
    by (simp add: groupD_def)
  have c: "createLocationIterator gaussianBuilder groupD
             = \<lparr> groupCount = 4, instanceCount = 3, cursor = 0 \<rparr>"
    by (simp add: gaussianBuilder_def groupD_def)
  from transform_rebuild [OF h1 h2 h3 h4 h5 h6, of PointsVisual exampleEnv]
  obtain v where "locationIt (snd (update PointsVisual gaussianBuilder exampleEnv noProps ?w))
                    = Some (createLocationIterator gaussianBuilder groupD)"
    and "valuesOf (snd (update PointsVisual gaussianBuilder exampleEnv noProps ?w)) = Some v"
    and "length (cell_value (tMarker v))
           = instanceCount (createLocationIterator gaussianBuilder groupD)
             * groupCount (createLocationIterator gaussianBuilder groupD)"
    by blast
  moreover have "length (units groupD) \<noteq> 2" by (simp add: groupD_def)
  ultimately show ?thesis using h1 by (auto simp: c)
qed

section \<open>The size theme\<close>

lemma diffPoints_eq_diffLines: "diffPoints = diffLines"
  by (intro ext) (simp add: diffPoints_def diffLines_def)

lemma diffMesh_eq_diffPoints:
  "sizeTheme np = sizeTheme cp \<Longrightarrow> diffMesh unit cg it np cp w = diffPoints unit cg it np cp w"
  by (simp add: diffMesh_def diffPoints_def)

lemma diffMesh_diffPoints_rest:
  "(diffMesh unit cg it np cp w)\<lparr> updateState := st \<rparr>
     = (diffPoints unit cg it np cp w)\<lparr> updateState := st \<rparr>"
  by (simp add: diffMesh_def diffPoints_def diffConformation_def flag_defs Let_def
      deepEqualColorTheme_def)

lemma tSize_after_sizeStep:
  assumes "k \<noteq> MeshVisual" and "updateSize (updateState w)"
  shows "map_option (\<lambda>v. cell_value (tSize v))
           (valuesOf (finishStep e np (colorStep e np (sizeStep k e np w))))
         = map_option (\<lambda>v. sizesOf e (the (locationIt w)) (sizeTheme np)) (valuesOf w)"
  using assms
  by (simp add: valuesOf_steps createSizes_def createColors_def updateValues_def cell_defs
      option.map_comp comp_def)

lemma valuesOf_defined_steps:
  "(valuesOf (geometryStep k b unit np (transformStep b cg (diffRules k unit cg it np cp w))) = None)
     = (valuesOf w = None)"
  "(valuesOf (finishStep e np (colorStep e np (sizeStep k e np w))) = None) = (valuesOf w = None)"
  by (simp_all add: valuesOf_steps)

lemma trace_resolution:
  "trace (finishStep e np (colorStep e np (sizeStep k e np (geometryStep k b unit np
       (transformStep b cg w))))) =
     trace w
     @ (if updateTransform (updateState w)
        then [CallCreateLocationIterator, CallCreateUnitsTransform,
              CallCreateMarkers (instanceCount (createLocationIterator b cg)
                                 * groupCount (createLocationIterator b cg))]
        else [])
     @ (if createGeometry (updateState w)
        then [if kind unit \<in> set (unitKinds np) then CallCreateGeometry unit else CallCreateEmpty]
        else [])
     @ (if k \<noteq> MeshVisual \<and> updateSize (updateState w) then [CallCreateSizes] else [])
     @ (if updateColor (updateState w) \<or> updateTransform (updateState w)
           \<or> createGeometry (updateState w)
        then [CallCreateColors] else [])"
  by (simp add: trace_steps updateState_steps)

lemma update_trace:
  assumes "renderObject w = Some ro" and "currentProps w = Some cp"
    and "currentGroup w = Some cg" and "locationIt w = Some it" and "units cg = unit # rest"
  shows "trace (snd (update k b e props w)) =
     trace w
     @ (if updateTransform (updateState (snd (update k b e props w)))
        then [CallCreateLocationIterator, CallCreateUnitsTransform,
              CallCreateMarkers (instanceCount (createLocationIterator b cg)
                                 * groupCount (createLocationIterator b cg))]
        else [])
     @ (if createGeometry (updateState (snd (update k b e props w)))
        then [if kind unit \<in> set (unitKinds (assign cp props))
              then CallCreateGeometry unit else CallCreateEmpty]
        else [])
     @ (if k \<noteq> MeshVisual \<and> updateSize (updateState (snd (update k b e props w)))
        then [CallCreateSizes] else [])
     @ (if updateColor (updateState (snd (update k b e props w))) then [CallCreateColors] else [])"
  unfolding update_run [OF assms] snd_conv trace_resolution
  by (simp add: updateState_steps bindStructure_def)

lemma update_flags:
  assumes "renderObject w = Some ro" and "currentProps w = Some cp"
    and "currentGroup w = Some cg" and "locationIt w = Some it" and "units cg = unit # rest"
  shows "createGeometry (updateState (snd (update k b e props w))) =
           (createGeometry (setUpdateState b VisualUpdateState_reset (assign cp props) cp)
            \<or> Some (conformationId unit) \<noteq> currentConformationId w
            \<or> (k = MeshVisual \<and> sizeTheme (assign cp props) \<noteq> sizeTheme cp)
            \<or> unitKinds (assign cp props) \<noteq> unitKinds cp)"
    and "updateTransform (updateState (snd (update k b e props w))) =
           (updateTransform (setUpdateState b VisualUpdateState_reset (assign cp props) cp)
            \<or> length (units cg) \<noteq> instanceCount it)"
    and "updateSize (updateState (snd (update k b e props w))) =
           (updateSize (setUpdateState b VisualUpdateState_reset (assign cp props) cp)
            \<or> (k \<noteq> MeshVisual \<and> sizeTheme (assign cp props) \<noteq> sizeTheme cp))"
  unfolding update_run [OF assms] snd_conv
  by (simp_all add: updateState_steps bindStructure_def reset_def)


text \<open>
  C7. In an update pass whose new size theme is not equal to the current one, the mesh
  visual sets \<^verbatim>\<open>createGeometry\<close> and never calls \<^verbatim>\<open>createSizes\<close>; the points and the lines
  visual set \<^verbatim>\<open>updateSize\<close>, call \<^verbatim>\<open>createSizes\<close>, which writes the size buffer from the new
  theme over the iterator, and the size theme does not make them rebuild the geometry. The
  rules of the points and of the lines visual are the same, and those of the mesh visual
  differ from them in the flag the size theme sets and in nothing else.
\<close>

theorem sizeTheme_change_rules:
  assumes run: "renderObject w = Some ro" "currentProps w = Some cp"
      "currentGroup w = Some cg" "locationIt w = Some it" "units cg = unit # rest"
    and size: "sizeTheme (assign cp props) \<noteq> sizeTheme cp"
  shows "createGeometry (updateState (snd (update MeshVisual b e props w)))
     \<and> CallCreateSizes \<notin> set (drop (length (trace w)) (trace (snd (update MeshVisual b e props w))))
     \<and> (\<forall>k. k \<noteq> MeshVisual \<longrightarrow>
          updateSize (updateState (snd (update k b e props w)))
        \<and> CallCreateSizes \<in> set (drop (length (trace w)) (trace (snd (update k b e props w))))
        \<and> (\<exists>v it'. valuesOf (snd (update k b e props w)) = Some v
                  \<and> locationIt (snd (update k b e props w)) = Some it'
                  \<and> cell_value (tSize v) = sizesOf e it' (sizeTheme (assign cp props)))
        \<and> createGeometry (updateState (snd (update k b e props w))) =
            (createGeometry (setUpdateState b VisualUpdateState_reset (assign cp props) cp)
             \<or> Some (conformationId unit) \<noteq> currentConformationId w
             \<or> unitKinds (assign cp props) \<noteq> unitKinds cp))
     \<and> (diffPoints :: Unit \<Rightarrow> SymmetryGroup \<Rightarrow> LocationIterator \<Rightarrow> 'a Props \<Rightarrow> 'a Props
            \<Rightarrow> 'a Visual \<Rightarrow> 'a Visual) = diffLines
     \<and> (\<forall>st u g i np c (x :: 'a Visual).
          (diffMesh u g i np c x)\<lparr> updateState := st \<rparr> = (diffPoints u g i np c x)\<lparr> updateState := st \<rparr>
        \<and> updateTransform (updateState (diffMesh u g i np c x))
            = updateTransform (updateState (diffPoints u g i np c x))
        \<and> updateColor (updateState (diffMesh u g i np c x))
            = updateColor (updateState (diffPoints u g i np c x))
        \<and> (sizeTheme np = sizeTheme c \<longrightarrow> diffMesh u g i np c x = diffPoints u g i np c x))"
proof (intro conjI allI impI)
  show "createGeometry (updateState (snd (update MeshVisual b e props w)))"
    using size by (simp add: update_flags [OF run])
  show "CallCreateSizes \<notin> set (drop (length (trace w)) (trace (snd (update MeshVisual b e props w))))"
    by (simp add: update_trace [OF run])
  show "diffPoints = diffLines" by (rule diffPoints_eq_diffLines)
next
  fix k :: VisualKind assume k: "k \<noteq> MeshVisual"
  let ?np = "assign cp props"
  let ?w3 = "(bindStructure ?np w)\<lparr> locationIt := Some (reset it),
               updateState := setUpdateState b VisualUpdateState_reset ?np cp \<rparr>"
  let ?w6 = "geometryStep k b unit ?np (transformStep b cg (diffRules k unit cg (reset it) ?np cp ?w3))"
  have r: "snd (update k b e props w) = finishStep e ?np (colorStep e ?np (sizeStep k e ?np ?w6))"
    by (simp add: update_run [OF run])
  show us: "updateSize (updateState (snd (update k b e props w)))"
    using size k by (simp add: update_flags [OF run])
  show "CallCreateSizes \<in> set (drop (length (trace w)) (trace (snd (update k b e props w))))"
    using us k by (simp add: update_trace [OF run])
  show "createGeometry (updateState (snd (update k b e props w))) =
            (createGeometry (setUpdateState b VisualUpdateState_reset (assign cp props) cp)
             \<or> Some (conformationId unit) \<noteq> currentConformationId w
             \<or> unitKinds (assign cp props) \<noteq> unitKinds cp)"
    using k by (simp add: update_flags [OF run])
  show "\<exists>v it'. valuesOf (snd (update k b e props w)) = Some v
                  \<and> locationIt (snd (update k b e props w)) = Some it'
                  \<and> cell_value (tSize v) = sizesOf e it' (sizeTheme (assign cp props))"
  proof -
    have u6: "updateSize (updateState ?w6)"
      using us unfolding r by simp
    have "valuesOf ?w3 \<noteq> None" using run(1) by (simp add: valuesOf_def bindStructure_def)
    then have "valuesOf ?w6 \<noteq> None" by (simp add: valuesOf_defined_steps)
    then obtain v6 where v6: "valuesOf ?w6 = Some v6" by auto
    have "locationIt ?w6 \<noteq> None" by (simp add: locationIt_transformStep bindStructure_def)
    then obtain it' where it': "locationIt ?w6 = Some it'" by auto
    from tSize_after_sizeStep [OF k u6, of e ?np] v6 it'
    obtain v where "valuesOf (snd (update k b e props w)) = Some v"
      and "cell_value (tSize v) = sizesOf e it' (sizeTheme ?np)"
      unfolding r by auto
    moreover have "locationIt (snd (update k b e props w)) = Some it'"
      unfolding r using it' by simp
    ultimately show ?thesis by blast
  qed
next
  fix st u g i np c and x :: "'a Visual"
  show "(diffMesh u g i np c x)\<lparr> updateState := st \<rparr> = (diffPoints u g i np c x)\<lparr> updateState := st \<rparr>"
    by (rule diffMesh_diffPoints_rest)
  show "updateTransform (updateState (diffMesh u g i np c x))
            = updateTransform (updateState (diffPoints u g i np c x))"
    using updateTransform_diffRules [of MeshVisual u g i np c x]
      updateTransform_diffRules [of PointsVisual u g i np c x]
    by (simp add: diffRules_def)
  show "updateColor (updateState (diffMesh u g i np c x))
            = updateColor (updateState (diffPoints u g i np c x))"
    using updateColor_diffRules [of MeshVisual u g i np c x]
      updateColor_diffRules [of PointsVisual u g i np c x]
    by (simp add: diffRules_def)
  assume "sizeTheme np = sizeTheme c"
  then show "diffMesh u g i np c x = diffPoints u g i np c x"
    by (rule diffMesh_eq_diffPoints)
qed

theorem sizeTheme_change_rules_witness:
  "renderObject (createdWith PointsVisual groupA) \<noteq> None
   \<and> sizeTheme (assign (the (currentProps (createdWith PointsVisual groupA)))
         (noProps\<lparr> p_sizeTheme := Some \<lparr> size_name = 0, size_value = 5 \<rparr> \<rparr>))
       \<noteq> sizeTheme (the (currentProps (createdWith PointsVisual groupA)))
   \<and> createGeometry (updateState (snd (update MeshVisual gaussianBuilder exampleEnv
         (noProps\<lparr> p_sizeTheme := Some \<lparr> size_name = 0, size_value = 5 \<rparr> \<rparr>)
         (createdWith PointsVisual groupA))))
   \<and> updateSize (updateState (snd (update PointsVisual gaussianBuilder exampleEnv
         (noProps\<lparr> p_sizeTheme := Some \<lparr> size_name = 0, size_value = 5 \<rparr> \<rparr>)
         (createdWith PointsVisual groupA))))
   \<and> updateSize (updateState (snd (update LinesVisual gaussianBuilder exampleEnv
         (noProps\<lparr> p_sizeTheme := Some \<lparr> size_name = 0, size_value = 5 \<rparr> \<rparr>)
         (createdWith PointsVisual groupA))))"
proof -
  let ?w = "createdWith PointsVisual groupA"
  let ?cp = "the (currentProps ?w)"
  let ?p = "noProps\<lparr> p_sizeTheme := Some \<lparr> size_name = 0, size_value = 5 \<rparr> \<rparr>"
  obtain ro where h1: "renderObject ?w = Some ro" by (simp add: run_defs)
  have h2: "currentProps ?w = Some ?cp" by (simp add: run_defs)
  have h3: "currentGroup ?w = Some groupA"
    by (simp add: createdWith_def createOrUpdate_Some initialVisual_def currentGroup_create
        structureGroupOf_def)
  have h4: "locationIt ?w = Some \<lparr> groupCount = 4, instanceCount = 2, cursor = 0 \<rparr>"
    by (simp add: run_defs)
  have h5: "units groupA = exampleUnit 0 Atomic 1 # [exampleUnit 1 Atomic 1]"
    by (simp add: groupA_def)
  have h6: "sizeTheme (assign ?cp ?p) \<noteq> sizeTheme ?cp" by (simp add: run_defs)
  from sizeTheme_change_rules [OF h1 h2 h3 h4 h5 h6, of gaussianBuilder exampleEnv]
  have "createGeometry (updateState (snd (update MeshVisual gaussianBuilder exampleEnv ?p ?w)))"
    and "\<forall>k. k \<noteq> MeshVisual \<longrightarrow>
           updateSize (updateState (snd (update k gaussianBuilder exampleEnv ?p ?w)))"
    by blast+
  then show ?thesis using h1 h6 by auto
qed

section \<open>The geometry and the draw count\<close>

lemma geometry_diffRules [simp]: "geometry (diffRules k unit cg it np cp w) = geometry w"
  by (cases k) (simp_all add: diffRules_def diffMesh_def diffPoints_def diffLines_def
      diffConformation_def flag_defs Let_def)

lemma geometry_transformStep [simp]: "geometry (transformStep b cg w) = geometry w"
  by (simp add: transformStep_def modifyValues_def flag_defs Let_def)

lemma geometry_geometryStep:
  "geometry (geometryStep k b unit np w) =
     (if createGeometry (updateState w)
      then Some (if kind unit \<in> set (unitKinds np)
                 then createGeom b unit (currentStructure w) np (geometry w)
                 else createEmpty (geometry w))
      else geometry w)"
  by (simp add: geometryStep_def buildGeometry_def modifyValues_def flag_defs Let_def)

lemma geometry_sizeStep [simp]: "geometry (sizeStep k e np w) = geometry w"
  by (simp add: sizeStep_def modifyValues_def)

lemma geometry_colorStep [simp]: "geometry (colorStep e np w) = geometry w"
  by (simp add: colorStep_def modifyValues_def)

lemma geometry_finishStep [simp]: "geometry (finishStep e np w) = geometry w"
  by (simp add: finishStep_def)

lemma currentStructure_diffRules [simp]:
  "currentStructure (diffRules k unit cg it np cp w) = currentStructure w"
  by (cases k) (simp_all add: diffRules_def diffMesh_def diffPoints_def diffLines_def
      diffConformation_def flag_defs Let_def)

lemma currentStructure_transformStep [simp]:
  "currentStructure (transformStep b cg w) = currentStructure w"
  by (simp add: transformStep_def modifyValues_def flag_defs Let_def)

lemma update_geometry:
  assumes "renderObject w = Some ro" and "currentProps w = Some cp"
    and "currentGroup w = Some cg" and "locationIt w = Some it" and "units cg = unit # rest"
  shows "geometry (snd (update k b e props w)) =
     (if createGeometry (updateState (snd (update k b e props w)))
      then Some (if kind unit \<in> set (unitKinds (assign cp props))
                 then createGeom b unit (currentStructure w) (assign cp props) (geometry w)
                 else createEmpty (geometry w))
      else geometry w)"
  unfolding update_run [OF assms] snd_conv
  by (simp add: geometry_geometryStep updateState_steps bindStructure_def)

lemma drawCount_steps:
  "map_option drawCount (valuesOf (finishStep e np (colorStep e np (sizeStep k e np w))))
     = map_option drawCount (valuesOf w)"
  "map_option drawCount (valuesOf (transformStep b cg w)) = map_option drawCount (valuesOf w)"
  by (simp_all add: valuesOf_steps option.map_comp comp_def createSizes_def createColors_def
      updateValues_def createMarkers_def createUnitsTransform_def)

lemma drawCount_geometryStep:
  "map_option (\<lambda>v. cell_value (drawCount v)) (valuesOf (geometryStep k b unit np w)) =
     (if createGeometry (updateState w)
      then map_option (\<lambda>v. drawCountOf k (if kind unit \<in> set (unitKinds np)
                 then createGeom b unit (currentStructure w) np (geometry w)
                 else createEmpty (geometry w))) (valuesOf w)
      else map_option (\<lambda>v. cell_value (drawCount v)) (valuesOf w))"
  by (simp add: valuesOf_geometryStep buildGeometry_def option.map_comp comp_def cell_defs)

lemma update_drawCount:
  assumes "renderObject w = Some ro" and "currentProps w = Some cp"
    and "currentGroup w = Some cg" and "locationIt w = Some it" and "units cg = unit # rest"
  shows "map_option (\<lambda>v. cell_value (drawCount v)) (valuesOf (snd (update k b e props w))) =
     Some (if createGeometry (updateState (snd (update k b e props w)))
           then drawCountOf k (if kind unit \<in> set (unitKinds (assign cp props))
                 then createGeom b unit (currentStructure w) (assign cp props) (geometry w)
                 else createEmpty (geometry w))
           else cell_value (drawCount (ro_values ro)))"
proof -
  let ?np = "assign cp props"
  let ?w3 = "(bindStructure ?np w)\<lparr> locationIt := Some (reset it),
               updateState := setUpdateState b VisualUpdateState_reset ?np cp \<rparr>"
  let ?w4 = "diffRules k unit cg (reset it) ?np cp ?w3"
  let ?w5 = "transformStep b cg ?w4"
  let ?w6 = "geometryStep k b unit ?np ?w5"
  have v3: "valuesOf ?w3 = Some (ro_values ro)"
    using assms(1) by (simp add: valuesOf_def bindStructure_def)
  have "map_option (\<lambda>v. cell_value (drawCount v)) (valuesOf (snd (update k b e props w)))
          = map_option cell_value (map_option drawCount (valuesOf (snd (update k b e props w))))"
    by (simp add: option.map_comp comp_def)
  also have "\<dots> = map_option cell_value (map_option drawCount (valuesOf ?w6))"
    unfolding update_run [OF assms] snd_conv by (simp only: drawCount_steps)
  also have "\<dots> = map_option (\<lambda>v. cell_value (drawCount v)) (valuesOf ?w6)"
    by (simp add: option.map_comp comp_def)
  also have "\<dots> = (if createGeometry (updateState ?w5)
      then map_option (\<lambda>v. drawCountOf k (if kind unit \<in> set (unitKinds ?np)
                 then createGeom b unit (currentStructure ?w5) ?np (geometry ?w5)
                 else createEmpty (geometry ?w5))) (valuesOf ?w5)
      else map_option (\<lambda>v. cell_value (drawCount v)) (valuesOf ?w5))"
    by (rule drawCount_geometryStep)
  finally have *: "map_option (\<lambda>v. cell_value (drawCount v)) (valuesOf (snd (update k b e props w)))
     = (if createGeometry (updateState ?w5)
      then map_option (\<lambda>v. drawCountOf k (if kind unit \<in> set (unitKinds ?np)
                 then createGeom b unit (currentStructure ?w5) ?np (geometry ?w5)
                 else createEmpty (geometry ?w5))) (valuesOf ?w5)
      else map_option (\<lambda>v. cell_value (drawCount v)) (valuesOf ?w5))" .
  have d5: "map_option (\<lambda>v. cell_value (drawCount v)) (valuesOf ?w5)
              = Some (cell_value (drawCount (ro_values ro)))"
  proof -
    have "map_option drawCount (valuesOf ?w5) = map_option drawCount (valuesOf ?w4)"
      by (simp only: drawCount_steps)
    then have "map_option cell_value (map_option drawCount (valuesOf ?w5))
                 = map_option cell_value (map_option drawCount (valuesOf ?w4))" by simp
    then show ?thesis by (simp add: option.map_comp comp_def v3)
  qed
  from d5 obtain v5 where v5: "valuesOf ?w5 = Some v5" by auto
  have f: "createGeometry (updateState (snd (update k b e props w)))
             = createGeometry (updateState ?w5)"
    unfolding update_run [OF assms] snd_conv by (simp add: updateState_steps)
  show ?thesis
    unfolding * f using d5 v5 by (simp add: bindStructure_def)
qed


lemma create_drawCount:
  assumes "units g = unit # rest"
  shows "map_option (\<lambda>v. cell_value (drawCount v)) (valuesOf (snd (create k b e g props w)))
           = Some (drawCountOf k (if kind unit \<in> set (unitKinds (assign (defaultProps b) props))
                 then createGeom b unit (currentStructure w) (assign (defaultProps b) props) (geometry w)
                 else createEmpty (geometry w)))"
  using assms
  by (simp add: create_def buildGeometry_def bindStructure_def createUnitsRenderObject_def Let_def
      valuesOf_def cell_defs)

lemma drawCountOf_createEmpty: "drawCountOf k (createEmpty x) = 0"
  by (cases k) (simp_all add: drawCountOf_def createEmpty_def)

text \<open>
  C8, as the code has it. When the kind of the representative unit is not among \<^verbatim>\<open>unitKinds\<close>,
  neither \<^verbatim>\<open>create\<close> nor \<^verbatim>\<open>update\<close> calls the builder's geometry function. \<^verbatim>\<open>create\<close> leaves
  the empty geometry and a draw count of 0, and so does every \<^verbatim>\<open>update\<close> pass that rebuilds the
  geometry (whose \<^verbatim>\<open>createGeometry\<close> flag is set). An \<^verbatim>\<open>update\<close> pass that does not rebuild
  leaves the geometry and the draw count as they were.
\<close>

theorem excluded_kind_geometry:
  "(units g = unit # rest \<and> kind unit \<notin> set (unitKinds (assign (defaultProps b) props)) \<longrightarrow>
      (\<forall>u. CallCreateGeometry u
             \<notin> set (drop (length (trace w)) (trace (snd (create k b e g props w)))))
      \<and> geometry (snd (create k b e g props w)) = Some (createEmpty (geometry w))
      \<and> map_option (\<lambda>v. cell_value (drawCount v)) (valuesOf (snd (create k b e g props w)))
          = Some 0)
   \<and> (renderObject w' = Some ro \<and> currentProps w' = Some cp \<and> currentGroup w' = Some cg
       \<and> locationIt w' = Some it \<and> units cg = unit' # rest'
       \<and> kind unit' \<notin> set (unitKinds (assign cp props')) \<longrightarrow>
      (\<forall>u. CallCreateGeometry u
             \<notin> set (drop (length (trace w')) (trace (snd (update k b e props' w')))))
      \<and> (createGeometry (updateState (snd (update k b e props' w'))) \<longrightarrow>
           geometry (snd (update k b e props' w')) = Some (createEmpty (geometry w'))
           \<and> map_option (\<lambda>v. cell_value (drawCount v)) (valuesOf (snd (update k b e props' w')))
               = Some 0)
      \<and> (\<not> createGeometry (updateState (snd (update k b e props' w'))) \<longrightarrow>
           geometry (snd (update k b e props' w')) = geometry w'
           \<and> map_option (\<lambda>v. cell_value (drawCount v)) (valuesOf (snd (update k b e props' w')))
               = Some (cell_value (drawCount (ro_values ro)))))"
proof (intro conjI impI; (elim conjE)?)
  assume g: "units g = unit # rest"
    and k: "kind unit \<notin> set (unitKinds (assign (defaultProps b) props))"
  show "\<forall>u. CallCreateGeometry u
             \<notin> set (drop (length (trace w)) (trace (snd (create k b e g props w))))"
    using k by (simp add: create_success(5) [OF g])
  show "geometry (snd (create k b e g props w)) = Some (createEmpty (geometry w))"
    using k by (simp add: create_success(4) [OF g])
  show "map_option (\<lambda>v. cell_value (drawCount v)) (valuesOf (snd (create k b e g props w)))
          = Some 0"
    using k by (simp add: create_drawCount [OF g] drawCountOf_createEmpty)
next
  assume run: "renderObject w' = Some ro" "currentProps w' = Some cp" "currentGroup w' = Some cg"
      "locationIt w' = Some it" "units cg = unit' # rest'"
    and k: "kind unit' \<notin> set (unitKinds (assign cp props'))"
  show "\<forall>u. CallCreateGeometry u
             \<notin> set (drop (length (trace w')) (trace (snd (update k b e props' w'))))"
    using k by (simp add: update_trace [OF run])
next
  assume run: "renderObject w' = Some ro" "currentProps w' = Some cp" "currentGroup w' = Some cg"
      "locationIt w' = Some it" "units cg = unit' # rest'"
    and k: "kind unit' \<notin> set (unitKinds (assign cp props'))"
    and f: "createGeometry (updateState (snd (update k b e props' w')))"
  show "geometry (snd (update k b e props' w')) = Some (createEmpty (geometry w'))"
    using k f by (simp add: update_geometry [OF run])
  show "map_option (\<lambda>v. cell_value (drawCount v)) (valuesOf (snd (update k b e props' w')))
               = Some 0"
    using k f by (simp add: update_drawCount [OF run] drawCountOf_createEmpty)
next
  assume run: "renderObject w' = Some ro" "currentProps w' = Some cp" "currentGroup w' = Some cg"
      "locationIt w' = Some it" "units cg = unit' # rest'"
    and f: "\<not> createGeometry (updateState (snd (update k b e props' w')))"
  show "geometry (snd (update k b e props' w')) = geometry w'"
    using f by (simp add: update_geometry [OF run])
  show "map_option (\<lambda>v. cell_value (drawCount v)) (valuesOf (snd (update k b e props' w')))
               = Some (cell_value (drawCount (ro_values ro)))"
    using f by (simp add: update_drawCount [OF run])
qed

theorem excluded_kind_geometry_witness:
  "units groupE = [exampleUnit 5 Spheres 3]
   \<and> kind (exampleUnit 5 Spheres 3)
        \<notin> set (unitKinds (assign (defaultProps gaussianBuilder) atomicOnly))
   \<and> geometry (snd (create MeshVisual gaussianBuilder exampleEnv groupE atomicOnly
                      (initialVisual exampleHeap)))
       = Some \<lparr> elementCount = 0, vertexData = [] \<rparr>
   \<and> map_option (\<lambda>v. cell_value (drawCount v))
         (valuesOf (snd (create MeshVisual gaussianBuilder exampleEnv groupE atomicOnly
                      (initialVisual exampleHeap))))
       = Some 0
   \<and> geometry (createdWith MeshVisual groupE) = Some \<lparr> elementCount = 2, vertexData = [3, 3] \<rparr>
   \<and> map_option (\<lambda>v. cell_value (drawCount v)) (valuesOf (createdWith MeshVisual groupE)) = Some 6
   \<and> createGeometry (updateState (snd (update MeshVisual gaussianBuilder exampleEnv atomicOnly
         (createdWith MeshVisual groupE))))
   \<and> geometry (snd (update MeshVisual gaussianBuilder exampleEnv atomicOnly
                      (createdWith MeshVisual groupE)))
       = Some \<lparr> elementCount = 0, vertexData = [] \<rparr>
   \<and> map_option (\<lambda>v. cell_value (drawCount v))
         (valuesOf (snd (update MeshVisual gaussianBuilder exampleEnv atomicOnly
                      (createdWith MeshVisual groupE))))
       = Some 0
   \<and> \<not> createGeometry (updateState (snd (update MeshVisual gaussianBuilder exampleEnv noProps
         (snd (create MeshVisual gaussianBuilder exampleEnv groupE atomicOnly
                 (initialVisual exampleHeap))))))
   \<and> geometry (snd (update MeshVisual gaussianBuilder exampleEnv noProps
         (snd (create MeshVisual gaussianBuilder exampleEnv groupE atomicOnly
                 (initialVisual exampleHeap)))))
       = Some \<lparr> elementCount = 0, vertexData = [] \<rparr>
   \<and> map_option (\<lambda>v. cell_value (drawCount v))
         (valuesOf (snd (update MeshVisual gaussianBuilder exampleEnv noProps
         (snd (create MeshVisual gaussianBuilder exampleEnv groupE atomicOnly
                 (initialVisual exampleHeap))))))
       = Some 0"
proof -
  let ?u = "exampleUnit 5 Spheres 3"
  let ?w = "initialVisual exampleHeap :: GaussianProps Visual"
  let ?w' = "createdWith MeshVisual groupE"
  let ?ro = "the (renderObject ?w')"
  let ?cp = "the (currentProps ?w')"
  let ?it = "\<lparr> groupCount = 4, instanceCount = 1, cursor = 0 \<rparr>"
  have a1: "units groupE = ?u # []" by (simp add: groupE_def)
  have a2: "kind ?u \<notin> set (unitKinds (assign (defaultProps gaussianBuilder) atomicOnly))"
    by (simp add: assign_def example_defs)
  have b1: "renderObject ?w' = Some ?ro" by (simp add: run_defs)
  have b2: "currentProps ?w' = Some ?cp" by (simp add: run_defs)
  have b3: "currentGroup ?w' = Some groupE"
    by (simp add: createdWith_def createOrUpdate_Some initialVisual_def currentGroup_create
        structureGroupOf_def)
  have b4: "locationIt ?w' = Some ?it" by (simp add: run_defs)
  have b6: "kind ?u \<notin> set (unitKinds (assign ?cp atomicOnly))" by (simp add: run_defs)
  have before: "geometry ?w' = Some \<lparr> elementCount = 2, vertexData = [3, 3] \<rparr>"
    "cell_value (drawCount (ro_values ?ro)) = 6"
    "map_option (\<lambda>v. cell_value (drawCount v)) (valuesOf ?w') = Some 6"
    by (simp_all add: run_defs valuesOf_def numeral_2_eq_2)
  note fl = update_flags(1) [OF b1 b2 b3 b4 a1, of MeshVisual gaussianBuilder exampleEnv]
  have f1: "createGeometry (updateState (snd (update MeshVisual gaussianBuilder exampleEnv
              atomicOnly ?w')))"
    unfolding fl by (simp add: run_defs)
  note T = excluded_kind_geometry [where g = groupE and unit = ?u and rest = "[]"
      and b = gaussianBuilder and props = atomicOnly and w = ?w and k = MeshVisual
      and e = exampleEnv and w' = ?w' and ro = ?ro and cp = ?cp and cg = groupE and it = ?it
      and unit' = ?u and rest' = "[]" and props' = atomicOnly]
  from T a1 a2
  have c: "geometry (snd (create MeshVisual gaussianBuilder exampleEnv groupE atomicOnly ?w))
             = Some (createEmpty (geometry ?w))"
    "map_option (\<lambda>v. cell_value (drawCount v))
       (valuesOf (snd (create MeshVisual gaussianBuilder exampleEnv groupE atomicOnly ?w))) = Some 0"
    by blast+
  from T b1 b2 b3 b4 a1 b6 f1
  have u: "geometry (snd (update MeshVisual gaussianBuilder exampleEnv atomicOnly ?w'))
             = Some (createEmpty (geometry ?w'))"
    "map_option (\<lambda>v. cell_value (drawCount v))
       (valuesOf (snd (update MeshVisual gaussianBuilder exampleEnv atomicOnly ?w'))) = Some 0"
    by blast+
  let ?w2 = "snd (create MeshVisual gaussianBuilder exampleEnv groupE atomicOnly ?w)"
  let ?ro2 = "the (renderObject ?w2)"
  let ?cp2 = "the (currentProps ?w2)"
  have d1: "renderObject ?w2 = Some ?ro2" by (simp add: run_defs)
  have d2: "currentProps ?w2 = Some ?cp2" by (simp add: run_defs)
  have d3: "currentGroup ?w2 = Some groupE" by (rule currentGroup_create)
  have d4: "locationIt ?w2 = Some ?it" by (simp add: run_defs)
  have d6: "kind ?u \<notin> set (unitKinds (assign ?cp2 noProps))" by (simp add: run_defs)
  have d7: "geometry ?w2 = Some \<lparr> elementCount = 0, vertexData = [] \<rparr>"
    "cell_value (drawCount (ro_values ?ro2)) = 0"
    by (simp_all add: run_defs)
  have f2: "\<not> createGeometry (updateState (snd (update MeshVisual gaussianBuilder exampleEnv
              noProps ?w2)))"
    unfolding update_flags(1) [OF d1 d2 d3 d4 a1] by (simp add: run_defs)
  note T2 = excluded_kind_geometry [where b = gaussianBuilder and k = MeshVisual
      and e = exampleEnv and w' = ?w2 and ro = ?ro2 and cp = ?cp2 and cg = groupE and it = ?it
      and unit' = ?u and rest' = "[]" and props' = noProps]
  from T2 d1 d2 d3 d4 a1 d6 f2
  have keep: "geometry (snd (update MeshVisual gaussianBuilder exampleEnv noProps ?w2))
                = geometry ?w2"
    "map_option (\<lambda>v. cell_value (drawCount v))
       (valuesOf (snd (update MeshVisual gaussianBuilder exampleEnv noProps ?w2)))
      = Some (cell_value (drawCount (ro_values ?ro2)))"
    by blast+
  from a1 a2 c u before f1 f2 keep d7 show ?thesis by (simp add: createEmpty_def)
qed

text \<open>
  C8 as it is written fails. The mesh visual is created with \<open>groupA\<close> (atomic units) and
  \<^verbatim>\<open>unitKinds = [Atomic]\<close>. The next call supplies \<open>groupG\<close>: the same \<^verbatim>\<open>hashCode\<close>, one unit of
  spheres, the same conformation id. The number of units differs, so the group is adopted;
  the conformation id does not, so \<^verbatim>\<open>createGeometry\<close> stays false. The representative unit is
  now of an excluded kind, and the geometry and the draw count are still those of the atomic
  unit.
\<close>

theorem excluded_kind_counterexample:
  "fst (createOrUpdate MeshVisual gaussianBuilder exampleEnv atomicOnly
          (Some (structureGroupOf groupA)) (initialVisual exampleHeap)) = None
   \<and> hashCode groupG = hashCode groupA
   \<and> fst (createOrUpdate MeshVisual gaussianBuilder exampleEnv noProps
            (Some (structureGroupOf groupG)) createdAtomicOnly) = None
   \<and> currentGroup (snd (createOrUpdate MeshVisual gaussianBuilder exampleEnv noProps
            (Some (structureGroupOf groupG)) createdAtomicOnly)) = Some groupG
   \<and> units groupG = [exampleUnit 5 Spheres 1]
   \<and> map_option unitKinds (currentProps (snd (createOrUpdate MeshVisual gaussianBuilder
            exampleEnv noProps (Some (structureGroupOf groupG)) createdAtomicOnly)))
       = Some [Atomic]
   \<and> kind (exampleUnit 5 Spheres 1) \<notin> set [Atomic]
   \<and> \<not> createGeometry (updateState (snd (createOrUpdate MeshVisual gaussianBuilder exampleEnv
            noProps (Some (structureGroupOf groupG)) createdAtomicOnly)))
   \<and> geometry (snd (createOrUpdate MeshVisual gaussianBuilder exampleEnv noProps
            (Some (structureGroupOf groupG)) createdAtomicOnly))
       = Some \<lparr> elementCount = 2, vertexData = [1, 1] \<rparr>
   \<and> geometry (snd (createOrUpdate MeshVisual gaussianBuilder exampleEnv noProps
            (Some (structureGroupOf groupG)) createdAtomicOnly))
       \<noteq> Some (createEmpty None)
   \<and> map_option (\<lambda>v. cell_value (drawCount v))
         (valuesOf (snd (createOrUpdate MeshVisual gaussianBuilder exampleEnv noProps
            (Some (structureGroupOf groupG)) createdAtomicOnly)))
       = Some 6"
  by (simp add: run_defs valuesOf_def numeral_2_eq_2)

section \<open>The visual after a call that succeeded\<close>

lemma update_None_run:
  assumes "fst (update k b e props w) = None" and "renderObject w = Some ro"
  obtains cp cg it unit rest where "currentProps w = Some cp" and "currentGroup w = Some cg"
    and "locationIt w = Some it" and "units cg = unit # rest"
  using assms
  by (auto simp: update_def Let_def bindStructure_def split: option.splits list.splits)

lemma currentConformationId_diffRules:
  "currentConformationId (diffRules k unit cg it np cp w) = Some (conformationId unit)"
  by (cases k) (simp_all add: diffRules_def diffMesh_def diffPoints_def diffLines_def
      diffConformation_def flag_defs Let_def)

lemma currentConformationId_later_steps:
  "currentConformationId (finishStep e np (colorStep e np (sizeStep k e np
       (geometryStep k b unit np (transformStep b cg w))))) = currentConformationId w"
  by (simp add: finishStep_def colorStep_def sizeStep_def geometryStep_def transformStep_def
      modifyValues_def buildGeometry_def flag_defs Let_def)

lemma currentProps_finishStep: "currentProps (finishStep e np w) = Some np"
  by (simp add: finishStep_def)

lemma update_fields:
  assumes "renderObject w = Some ro" and "currentProps w = Some cp"
    and "currentGroup w = Some cg" and "locationIt w = Some it" and "units cg = unit # rest"
  shows "currentProps (snd (update k b e props w)) = Some (assign cp props)"
    and "currentConformationId (snd (update k b e props w)) = Some (conformationId unit)"
    and "locationIt (snd (update k b e props w)) =
           Some (if updateTransform (updateState (snd (update k b e props w)))
                 then createLocationIterator b cg else reset it)"
    and "valuesOf (snd (update k b e props w)) \<noteq> None"
    and "currentGroup (snd (update k b e props w)) = Some cg"
    and "fst (update k b e props w) = None"
proof -
  note r = update_run [OF assms]
  show "currentProps (snd (update k b e props w)) = Some (assign cp props)"
    unfolding r snd_conv by (rule currentProps_finishStep)
  show "currentConformationId (snd (update k b e props w)) = Some (conformationId unit)"
    unfolding r snd_conv
    by (simp only: currentConformationId_later_steps currentConformationId_diffRules)
  show "locationIt (snd (update k b e props w)) =
           Some (if updateTransform (updateState (snd (update k b e props w)))
                 then createLocationIterator b cg else reset it)"
    unfolding r snd_conv by (simp add: locationIt_transformStep updateState_steps bindStructure_def)
  show "valuesOf (snd (update k b e props w)) \<noteq> None"
    unfolding r snd_conv using assms(1)
    by (simp add: valuesOf_defined_steps) (simp add: valuesOf_def bindStructure_def)
  show "currentGroup (snd (update k b e props w)) = Some cg"
    using assms(3) by (simp add: currentGroup_update)
  show "fst (update k b e props w) = None" by (simp add: r)
qed

lemma create_fields:
  assumes "units g = unit # rest"
  shows "currentProps (snd (create k b e g props w)) = Some (assign (defaultProps b) props)"
    and "currentConformationId (snd (create k b e g props w)) = Some (conformationId unit)"
    and "valuesOf (snd (create k b e g props w)) \<noteq> None"
  using assms
  by (simp_all add: create_def buildGeometry_def bindStructure_def Let_def valuesOf_def)

lemma create_None:
  assumes "fst (create k b e g props w) = None"
  obtains unit rest where "units g = unit # rest"
  using assms by (cases "units g") (simp_all add: create_def Let_def)

text \<open>What holds of the visual after a call with a group that succeeded.\<close>

lemma createOrUpdate_established:
  assumes first: "createOrUpdate k b e props (Some sg) w = (None, w')"
  shows "\<exists>ro cp cg it unit rest.
           renderObject w' = Some ro \<and> currentProps w' = Some cp \<and> currentGroup w' = Some cg
           \<and> locationIt w' = Some it \<and> units cg = unit # rest
           \<and> currentConformationId w' = Some (conformationId unit)
           \<and> hashCode cg = hashCode (sg_group sg)
           \<and> sameGroupConformation (sg_group sg) cg = Inr True
           \<and> currentProps w' = Some (assign cp props)
           \<and> ((\<forall>g. instanceCount (createLocationIterator b g) = length (units g))
                \<longrightarrow> instanceCount it = length (units cg))"
proof -
  let ?w0 = "w\<lparr> currentStructure := Some (sg_structure sg) \<rparr>"
  let ?g = "sg_group sg"
  have w': "w' = snd (createOrUpdate k b e props (Some sg) w)"
    and ok: "fst (createOrUpdate k b e props (Some sg) w) = None"
    using first by simp_all
  consider (c) "createOrUpdate k b e props (Some sg) w = create k b e ?g props ?w0"
    | (u) cg ro same where "currentGroup w = Some cg" "renderObject w = Some ro"
        "hashCode ?g = hashCode cg" "sameGroupConformation ?g cg = Inr same"
        "createOrUpdate k b e props (Some sg) w
           = update k b e props (if same then ?w0 else ?w0\<lparr> currentGroup := Some ?g \<rparr>)"
    using ok
    by (cases "currentGroup w"; cases "renderObject w";
        cases "sameGroupConformation ?g (the (currentGroup w))")
       (auto simp: createOrUpdate_Some Let_def split: if_splits)
  then show ?thesis
  proof cases
    case c
    from ok c obtain unit rest where g: "units ?g = unit # rest"
      by (auto elim: create_None)
    from create_fields(3) [OF g, of k b e props ?w0] obtain ro
      where ro: "renderObject (snd (create k b e ?g props ?w0)) = Some ro"
      by (auto simp: valuesOf_def)
    have idem: "assign (assign (defaultProps b) props) props = assign (defaultProps b) props"
      by (simp add: assign_def split: option.split)
    show ?thesis
      unfolding w' c
      using g ro create_fields(1,2) [OF g, of k b e props ?w0]
        create_success(2) [OF g, of k b e props ?w0]
        currentGroup_create [of k b e ?g props ?w0]
      by (simp add: sameGroupConformation_def idem)
  next
    case u
    let ?w1 = "if same then ?w0 else ?w0\<lparr> currentGroup := Some ?g \<rparr>"
    let ?cg = "if same then cg else ?g"
    have ro: "renderObject ?w1 = Some ro" using u(2) by simp
    have cur: "currentGroup ?w1 = Some ?cg" using u(1) by simp
    from ok u(5) have "fst (update k b e props ?w1) = None" by simp
    from update_None_run [OF this ro] cur obtain cp it unit rest
      where run: "currentProps ?w1 = Some cp" "locationIt ?w1 = Some it" "units ?cg = unit # rest"
      by (metis option.inject)
    note f = update_fields [OF ro run(1) cur run(2,3), of k b e props]
    note fl = update_flags(2) [OF ro run(1) cur run(2,3), of k b e props]
    from f(4) obtain ro' where ro': "renderObject (snd (update k b e props ?w1)) = Some ro'"
      by (auto simp: valuesOf_def)
    have idem: "assign (assign cp props) props = assign cp props"
      by (simp add: assign_def split: option.split)
    have same': "sameGroupConformation ?g ?cg = Inr True"
      using u(4) run(3) by (cases same) (auto simp: sameGroupConformation_def)
    have hash: "hashCode ?cg = hashCode ?g" using u(3) by simp
    have inst: "(\<forall>g. instanceCount (createLocationIterator b g) = length (units g))
                \<longrightarrow> instanceCount (if updateTransform (updateState (snd (update k b e props ?w1)))
                 then createLocationIterator b ?cg else reset it) = length (units ?cg)"
      using fl by (auto simp: reset_def)
    show ?thesis
      unfolding w' u(5)
      using ro' f(1,2,3,5) run(3) same' hash inst idem
      by (intro exI [of _ ro'] exI [of _ "assign cp props"] exI [of _ ?cg]
            exI [of _ "if updateTransform (updateState (snd (update k b e props ?w1)))
                 then createLocationIterator b ?cg else reset it"]
            exI [of _ unit] exI [of _ rest]) simp
  qed
qed


text \<open>
  C4. After a call that succeeded, a call with a group of the current \<^verbatim>\<open>hashCode\<close> whose first
  unit has another conformation id than the first unit of the current group is the update
  path, run on the new group, and its \<^verbatim>\<open>createGeometry\<close> flag is set. When the number of
  units is the same (and the builder's iterators have one instance per unit, as those of
  the sources have), the \<^verbatim>\<open>instanceCount\<close> of the iterator stays as it was and the visual
  itself does not ask for new transforms: \<^verbatim>\<open>updateTransform\<close> is what the builder's
  \<^verbatim>\<open>setUpdateState\<close> made it.
\<close>

theorem conformation_change_rebuilds_geometry:
  assumes first: "createOrUpdate k b e p1 (Some sg1) w0 = (None, w1)"
    and cur: "currentGroup w1 = Some cg"
    and hash: "hashCode g = hashCode cg"
    and ug: "units g = u # r" and uc: "units cg = uc # rc"
    and conf: "conformationId u \<noteq> conformationId uc"
  shows "createOrUpdate k b e p2 (Some \<lparr> sg_structure = s, sg_group = g \<rparr>) w1
           = update k b e p2 (w1\<lparr> currentStructure := Some s, currentGroup := Some g \<rparr>)
     \<and> fst (createOrUpdate k b e p2 (Some \<lparr> sg_structure = s, sg_group = g \<rparr>) w1) = None
     \<and> createGeometry (updateState (snd (createOrUpdate k b e p2
           (Some \<lparr> sg_structure = s, sg_group = g \<rparr>) w1)))
     \<and> CallCreateRenderObject \<notin> set (drop (length (trace w1))
           (trace (snd (createOrUpdate k b e p2 (Some \<lparr> sg_structure = s, sg_group = g \<rparr>) w1))))
     \<and> (length (units g) = length (units cg)
          \<and> (\<forall>g'. instanceCount (createLocationIterator b g') = length (units g')) \<longrightarrow>
          map_option instanceCount (locationIt (snd (createOrUpdate k b e p2
              (Some \<lparr> sg_structure = s, sg_group = g \<rparr>) w1)))
            = map_option instanceCount (locationIt w1)
          \<and> updateTransform (updateState (snd (createOrUpdate k b e p2
              (Some \<lparr> sg_structure = s, sg_group = g \<rparr>) w1)))
            = updateTransform (setUpdateState b VisualUpdateState_reset
                (assign (the (currentProps w1)) p2) (the (currentProps w1))))"
proof -
  let ?w = "w1\<lparr> currentStructure := Some s, currentGroup := Some g \<rparr>"
  from createOrUpdate_established [OF first] cur uc obtain ro cp it
    where est: "renderObject w1 = Some ro" "currentProps w1 = Some cp" "locationIt w1 = Some it"
      "currentConformationId w1 = Some (conformationId uc)"
      "(\<forall>g. instanceCount (createLocationIterator b g) = length (units g))
         \<longrightarrow> instanceCount it = length (units cg)"
    by auto
  have same: "sameGroupConformation g cg = Inr False"
    using ug uc conf by (simp add: sameGroupConformation_def)
  have eq: "createOrUpdate k b e p2 (Some \<lparr> sg_structure = s, sg_group = g \<rparr>) w1
              = update k b e p2 ?w"
    using cur est(1) hash same by (simp add: createOrUpdate_Some)
  have run: "renderObject ?w = Some ro" "currentProps ?w = Some cp" "currentGroup ?w = Some g"
    "locationIt ?w = Some it" "units g = u # r"
    using est ug by simp_all
  note f = update_fields [OF run, of k b e p2]
  note fl = update_flags [OF run, of k b e p2]
  have geo: "createGeometry (updateState (snd (update k b e p2 ?w)))"
    using conf est(4) by (simp add: fl(1))
  have tr: "CallCreateRenderObject \<notin> set (drop (length (trace w1)) (trace (snd (update k b e p2 ?w))))"
    by (simp add: update_trace [OF run])
  have inst: "map_option instanceCount (locationIt (snd (update k b e p2 ?w)))
            = map_option instanceCount (locationIt w1)
          \<and> updateTransform (updateState (snd (update k b e p2 ?w)))
            = updateTransform (setUpdateState b VisualUpdateState_reset
                (assign (the (currentProps w1)) p2) (the (currentProps w1)))"
    if len: "length (units g) = length (units cg)"
      and H: "\<forall>g'. instanceCount (createLocationIterator b g') = length (units g')"
  proof -
    from est(5) H have i: "instanceCount it = length (units cg)" by blast
    show ?thesis
      using i len H est(2,3) by (simp add: f(3) fl(2) reset_def)
  qed
  show ?thesis
    unfolding eq using f(6) geo tr inst by blast
qed

theorem conformation_change_rebuilds_geometry_witness:
  "createOrUpdate PointsVisual gaussianBuilder exampleEnv noProps (Some (structureGroupOf groupA))
     (initialVisual exampleHeap) = (None, createdWith PointsVisual groupA)
   \<and> currentGroup (createdWith PointsVisual groupA) = Some groupA
   \<and> hashCode groupC = hashCode groupA
   \<and> conformationId (exampleUnit 0 Atomic 2) \<noteq> conformationId (exampleUnit 0 Atomic 1)
   \<and> length (units groupC) = length (units groupA)
   \<and> (\<forall>g'. instanceCount (createLocationIterator gaussianBuilder g') = length (units g'))
   \<and> createGeometry (updateState (snd (createOrUpdate PointsVisual gaussianBuilder exampleEnv noProps
         (Some \<lparr> sg_structure = 1, sg_group = groupC \<rparr>) (createdWith PointsVisual groupA))))
   \<and> map_option instanceCount (locationIt (snd (createOrUpdate PointsVisual gaussianBuilder
         exampleEnv noProps (Some \<lparr> sg_structure = 1, sg_group = groupC \<rparr>)
         (createdWith PointsVisual groupA)))) = Some 2"
proof -
  let ?w1 = "createdWith PointsVisual groupA"
  have h1: "createOrUpdate PointsVisual gaussianBuilder exampleEnv noProps
              (Some (structureGroupOf groupA)) (initialVisual exampleHeap) = (None, ?w1)"
    by (simp add: createdWith_def prod_eq_iff) (simp add: run_defs)
  have h2: "currentGroup ?w1 = Some groupA"
    by (simp add: createdWith_def createOrUpdate_Some initialVisual_def currentGroup_create
        structureGroupOf_def)
  have h3: "hashCode groupC = hashCode groupA" by (simp add: example_defs)
  have h4: "units groupC = exampleUnit 0 Atomic 2 # [exampleUnit 1 Atomic 2]"
    by (simp add: groupC_def)
  have h5: "units groupA = exampleUnit 0 Atomic 1 # [exampleUnit 1 Atomic 1]"
    by (simp add: groupA_def)
  have h6: "conformationId (exampleUnit 0 Atomic 2) \<noteq> conformationId (exampleUnit 0 Atomic 1)"
    by (simp add: exampleUnit_def)
  have h7: "length (units groupC) = length (units groupA)" by (simp add: example_defs)
  have h8: "\<forall>g'. instanceCount (createLocationIterator gaussianBuilder g') = length (units g')"
    by (simp add: gaussianBuilder_def)
  have it: "map_option instanceCount (locationIt ?w1) = Some 2" by (simp add: run_defs)
  from conformation_change_rebuilds_geometry [OF h1 h2 h3 h4 h5 h6, of noProps 1] h7 h8
  have "createGeometry (updateState (snd (createOrUpdate PointsVisual gaussianBuilder exampleEnv
          noProps (Some \<lparr> sg_structure = 1, sg_group = groupC \<rparr>) ?w1)))"
    and "map_option instanceCount (locationIt (snd (createOrUpdate PointsVisual gaussianBuilder
          exampleEnv noProps (Some \<lparr> sg_structure = 1, sg_group = groupC \<rparr>) ?w1)))
         = map_option instanceCount (locationIt ?w1)"
    by blast+
  with h1 h2 h3 h6 h7 h8 it show ?thesis by simp
qed

section \<open>Calling twice\<close>

lemma heap_diffRules [simp]: "heap (diffRules k unit cg it np cp w) = heap w"
  by (cases k) (simp_all add: diffRules_def diffMesh_def diffPoints_def diffLines_def
      diffConformation_def flag_defs Let_def)

lemma heap_transformStep [simp]: "heap (transformStep b cg w) = heap w"
  by (simp add: transformStep_def modifyValues_def flag_defs Let_def)

lemma heap_geometryStep [simp]: "heap (geometryStep k b unit np w) = heap w"
  by (simp add: geometryStep_def buildGeometry_def modifyValues_def flag_defs Let_def)

lemma heap_sizeStep [simp]: "heap (sizeStep k e np w) = heap w"
  by (simp add: sizeStep_def modifyValues_def)

lemma heap_colorStep [simp]: "heap (colorStep e np w) = heap w"
  by (simp add: colorStep_def modifyValues_def)

lemma heap_finishStep [simp]: "heap (finishStep e np w) = heap w"
  by (simp add: finishStep_def)

lemma currentStructure_geometryStep [simp]:
  "currentStructure (geometryStep k b unit np w) = currentStructure w"
  by (simp add: geometryStep_def buildGeometry_def modifyValues_def flag_defs Let_def)

lemma currentStructure_sizeStep [simp]: "currentStructure (sizeStep k e np w) = currentStructure w"
  by (simp add: sizeStep_def modifyValues_def)

lemma currentStructure_colorStep [simp]: "currentStructure (colorStep e np w) = currentStructure w"
  by (simp add: colorStep_def modifyValues_def)

lemma currentStructure_finishStep [simp]: "currentStructure (finishStep e np w) = currentStructure w"
  by (simp add: finishStep_def)

lemma update_heap:
  assumes "renderObject w = Some ro" and "currentProps w = Some cp"
    and "currentGroup w = Some cg" and "locationIt w = Some it" and "units cg = unit # rest"
  shows "heap (snd (update k b e props w)) = heap (bindStructure (assign cp props) w)"
    and "currentStructure (snd (update k b e props w)) = currentStructure w"
    and "color_structure (heap (snd (update k b e props w)) (colorTheme (assign cp props)))
           = currentStructure w"
proof -
  note r = update_run [OF assms]
  show h: "heap (snd (update k b e props w)) = heap (bindStructure (assign cp props) w)"
    unfolding r snd_conv by simp
  show "currentStructure (snd (update k b e props w)) = currentStructure w"
    unfolding r snd_conv by (simp add: bindStructure_def)
  show "color_structure (heap (snd (update k b e props w)) (colorTheme (assign cp props)))
           = currentStructure w"
    unfolding h by (simp add: bindStructure_def)
qed

lemma bindStructure_idem:
  assumes "color_structure (heap w (colorTheme p)) = currentStructure w"
  shows "bindStructure p w = w"
proof -
  have "(heap w (colorTheme p))\<lparr> color_structure := currentStructure w \<rparr> = heap w (colorTheme p)"
    using assms [symmetric] by simp
  then show ?thesis by (simp add: bindStructure_def)
qed


lemma update_values:
  assumes "renderObject w = Some ro" and "currentProps w = Some cp"
    and "currentGroup w = Some cg" and "locationIt w = Some it" and "units cg = unit # rest"
  shows "valuesOf (snd (update k b e props w)) =
     (let np = assign cp props;
          F = updateState (snd (update k b e props w));
          it' = (if updateTransform F then createLocationIterator b cg else reset it);
          v1 = (if updateTransform F
                then createMarkers (instanceCount it' * groupCount it')
                       (createUnitsTransform cg (ro_values ro))
                else ro_values ro);
          v2 = (if createGeometry F
                then v1\<lparr> drawCount := ValueCell_update (drawCount v1)
                        (drawCountOf k (the (geometry (snd (update k b e props w))))) \<rparr>
                else v1);
          v3 = (if k \<noteq> MeshVisual \<and> updateSize F then createSizes e it' (sizeTheme np) v2 else v2);
          v4 = (if updateColor F
                then createColors e it' (heap (snd (update k b e props w)) (colorTheme np)) v3
                else v3)
      in Some (updateValues e v4 np))"
proof -
  let ?np = "assign cp props"
  let ?w3 = "(bindStructure ?np w)\<lparr> locationIt := Some (reset it),
               updateState := setUpdateState b VisualUpdateState_reset ?np cp \<rparr>"
  let ?w4 = "diffRules k unit cg (reset it) ?np cp ?w3"
  let ?w5 = "transformStep b cg ?w4"
  let ?w6 = "geometryStep k b unit ?np ?w5"
  let ?w7 = "sizeStep k e ?np ?w6"
  let ?w8 = "colorStep e ?np ?w7"
  let ?F = "updateState ?w4"
  let ?it' = "if updateTransform ?F then createLocationIterator b cg else reset it"
  note r = update_run [OF assms]
  have v4: "valuesOf ?w3 = Some (ro_values ro)"
    using assms(1) by (simp add: valuesOf_def bindStructure_def)
  have l5: "locationIt ?w5 = Some ?it'"
    by (simp add: locationIt_transformStep)
  have v5: "valuesOf ?w5 = Some (if updateTransform ?F
                then createMarkers (instanceCount ?it' * groupCount ?it')
                       (createUnitsTransform cg (ro_values ro))
                else ro_values ro)" (is "_ = Some ?v1")
    by (simp add: valuesOf_transformStep v4)
  have f5: "createGeometry (updateState ?w5) = createGeometry ?F"
    "updateSize (updateState ?w5) = updateSize ?F"
    by (simp_all add: updateState_transformStep)
  have g6: "geometry ?w6 = geometry (snd (update k b e props w))"
    unfolding r snd_conv by simp
  have v6: "valuesOf ?w6 = Some (if createGeometry ?F
                then ?v1\<lparr> drawCount := ValueCell_update (drawCount ?v1)
                        (drawCountOf k (the (geometry (snd (update k b e props w))))) \<rparr>
                else ?v1)" (is "_ = Some ?v2")
  proof (cases "createGeometry ?F")
    case True
    then have "geometry ?w6 = geometry (buildGeometry b unit ?np ?w5)"
      by (simp add: geometryStep_def modifyValues_def flag_defs f5 Let_def)
    with True show ?thesis
      by (simp add: valuesOf_geometryStep v5 f5 g6 [symmetric])
  next
    case False
    then show ?thesis by (simp add: valuesOf_geometryStep v5 f5)
  qed
  have f6: "updateSize (updateState ?w6) = updateSize ?F"
    by (simp add: updateState_geometryStep f5)
  have v7: "valuesOf ?w7 = Some (if k \<noteq> MeshVisual \<and> updateSize ?F
                then createSizes e ?it' (sizeTheme ?np) ?v2 else ?v2)" (is "_ = Some ?v3")
    by (simp add: valuesOf_sizeStep v6 f6 l5)
  have f7: "updateColor (updateState ?w6)
              = updateColor (updateState (snd (update k b e props w)))"
    unfolding r snd_conv by simp
  have h7: "heap (bindStructure ?np w) = heap (snd (update k b e props w))"
    unfolding r snd_conv by simp
  have v8: "valuesOf ?w8 = Some (if updateColor (updateState (snd (update k b e props w)))
                then createColors e ?it' (heap (snd (update k b e props w)) (colorTheme ?np)) ?v3
                else ?v3)" (is "_ = Some ?v4")
    by (simp add: valuesOf_colorStep v7 f7 l5 h7)
  have F: "updateTransform (updateState (snd (update k b e props w))) = updateTransform ?F"
    "createGeometry (updateState (snd (update k b e props w))) = createGeometry ?F"
    "updateSize (updateState (snd (update k b e props w))) = updateSize ?F"
    unfolding r snd_conv by (simp_all add: updateState_transformStep updateState_geometryStep)
  have "valuesOf (snd (update k b e props w)) = valuesOf (finishStep e ?np ?w8)"
    by (simp add: r)
  also have "\<dots> = Some (updateValues e ?v4 ?np)"
    by (simp only: valuesOf_finishStep v8 option.map)
  finally show ?thesis
    unfolding Let_def F .
qed


lemma update_flags_color:
  assumes "renderObject w = Some ro" and "currentProps w = Some cp"
    and "currentGroup w = Some cg" and "locationIt w = Some it" and "units cg = unit # rest"
  shows "updateColor (updateState (snd (update k b e props w))) =
           (updateColor (setUpdateState b VisualUpdateState_reset (assign cp props) cp)
            \<or> heap (bindStructure (assign cp props) w) (colorTheme (assign cp props))
                 \<noteq> heap (bindStructure (assign cp props) w) (colorTheme cp)
            \<or> updateTransform (updateState (snd (update k b e props w)))
            \<or> createGeometry (updateState (snd (update k b e props w))))"
  unfolding update_run [OF assms] snd_conv
  by (simp add: updateState_steps) (auto simp: bindStructure_def)

text \<open>
  What a call that succeeded leaves behind, besides the facts above: the structure is bound
  into the colour theme of the current properties, the declarative values are those of the
  current properties, and an iterator whose \<^verbatim>\<open>instanceCount\<close> is not the number of units has
  just been taken, together with the transforms, the markers and the colours.
\<close>

lemma create_state:
  assumes g: "units g = unit # rest"
  shows "currentStructure (snd (create k b e g props w)) = currentStructure w"
    and "heap (snd (create k b e g props w)) = heap (bindStructure (assign (defaultProps b) props) w)"
    and "map_option (\<lambda>v. cell_value (uniforms v)) (valuesOf (snd (create k b e g props w)))
           = Some (uniformsOf e (assign (defaultProps b) props))"
    and "map_option (\<lambda>v. cell_value (aTransform v)) (valuesOf (snd (create k b e g props w)))
           = Some (map operator (units g))"
    and "map_option (\<lambda>v. cell_value (tMarker v)) (valuesOf (snd (create k b e g props w)))
           = Some (replicate (instanceCount (createLocationIterator b g)
                              * groupCount (createLocationIterator b g)) 0)"
    and "map_option (\<lambda>v. cell_value (tColor v)) (valuesOf (snd (create k b e g props w)))
           = Some (colorsOf e (createLocationIterator b g)
                    (heap (bindStructure (assign (defaultProps b) props) w)
                       (colorTheme (assign (defaultProps b) props))))"
  by (simp_all add: create_def g buildGeometry_def bindStructure_def createUnitsRenderObject_def
      Let_def cell_defs valuesOf_def)

lemma create_fresh:
  assumes g: "units g = unit # rest"
    and w1: "w1 = snd (create k b e g props w)"
    and st: "renderObject w1 = Some ro" "currentProps w1 = Some cp" "locationIt w1 = Some it"
  shows "currentStructure w1 = currentStructure w"
    and "color_structure (heap w1 (colorTheme cp)) = currentStructure w1"
    and "cell_value (uniforms (ro_values ro)) = uniformsOf e cp"
    and "it = createLocationIterator b g"
    and "cell_value (aTransform (ro_values ro)) = map operator (units g)"
    and "cell_value (tMarker (ro_values ro)) = replicate (instanceCount it * groupCount it) 0"
    and "cell_value (tColor (ro_values ro)) = colorsOf e it (heap w1 (colorTheme cp))"
proof -
  note s = create_state [OF g, of k b e props w]
  have cp: "cp = assign (defaultProps b) props"
    using create_fields(1) [OF g, of k b e props w] st(2) unfolding w1 by simp
  have v1: "valuesOf w1 = Some (ro_values ro)" using st(1) by (simp add: valuesOf_def)
  show cs: "currentStructure w1 = currentStructure w" unfolding w1 by (rule s(1))
  show it: "it = createLocationIterator b g"
    using create_success(2) [OF g, of k b e props w] st(3) unfolding w1 by simp
  have h: "heap w1 = heap (bindStructure cp w)" unfolding w1 cp by (rule s(2))
  show "color_structure (heap w1 (colorTheme cp)) = currentStructure w1"
    unfolding cs h by (simp add: bindStructure_def)
  show "cell_value (uniforms (ro_values ro)) = uniformsOf e cp"
    using s(3) v1 unfolding w1 [symmetric] cp by simp
  show "cell_value (aTransform (ro_values ro)) = map operator (units g)"
    using s(4) v1 unfolding w1 [symmetric] by simp
  show "cell_value (tMarker (ro_values ro)) = replicate (instanceCount it * groupCount it) 0"
    using s(5) v1 unfolding w1 [symmetric] it by simp
  show "cell_value (tColor (ro_values ro)) = colorsOf e it (heap w1 (colorTheme cp))"
    using s(6) v1 unfolding w1 [symmetric] it h cp by simp
qed

lemma update_fresh:
  assumes run: "renderObject w = Some ro0" "currentProps w = Some cp0"
      "currentGroup w = Some cg" "locationIt w = Some it0" "units cg = unit # rest"
    and w1: "w1 = snd (update k b e props w)"
    and st: "renderObject w1 = Some ro" "currentProps w1 = Some cp" "locationIt w1 = Some it"
  shows "currentStructure w1 = currentStructure w"
    and "color_structure (heap w1 (colorTheme cp)) = currentStructure w1"
    and "cell_value (uniforms (ro_values ro)) = uniformsOf e cp"
    and "instanceCount it \<noteq> length (units cg) \<longrightarrow>
           it = createLocationIterator b cg
           \<and> cell_value (aTransform (ro_values ro)) = map operator (units cg)
           \<and> cell_value (tMarker (ro_values ro)) = replicate (instanceCount it * groupCount it) 0
           \<and> cell_value (tColor (ro_values ro)) = colorsOf e it (heap w1 (colorTheme cp))"
proof -
  note f = update_fields [OF run, of k b e props]
  note h = update_heap [OF run, of k b e props]
  note fl = update_flags [OF run, of k b e props]
  note v = update_values [OF run, of k b e props]
  have cp: "cp = assign cp0 props" using f(1) st(2) unfolding w1 by simp
  have v1: "valuesOf w1 = Some (ro_values ro)" using st(1) by (simp add: valuesOf_def)
  show cs: "currentStructure w1 = currentStructure w" unfolding w1 by (rule h(2))
  show "color_structure (heap w1 (colorTheme cp)) = currentStructure w1"
    unfolding cs unfolding w1 cp by (rule h(3))
  show "cell_value (uniforms (ro_values ro)) = uniformsOf e cp"
    using v v1 unfolding w1 [symmetric] cp
    by (auto simp: Let_def updateValues_def cell_defs)
  show "instanceCount it \<noteq> length (units cg) \<longrightarrow>
           it = createLocationIterator b cg
           \<and> cell_value (aTransform (ro_values ro)) = map operator (units cg)
           \<and> cell_value (tMarker (ro_values ro)) = replicate (instanceCount it * groupCount it) 0
           \<and> cell_value (tColor (ro_values ro)) = colorsOf e it (heap w1 (colorTheme cp))"
  proof
    assume m: "instanceCount it \<noteq> length (units cg)"
    have it: "it = (if updateTransform (updateState w1) then createLocationIterator b cg
                    else reset it0)"
      using f(3) st(3) unfolding w1 by simp
    have t: "updateTransform (updateState w1)"
    proof (rule ccontr)
      assume n: "\<not> updateTransform (updateState w1)"
      with it have "instanceCount it = instanceCount it0" by (simp add: reset_def)
      moreover from n fl(2) have "length (units cg) = instanceCount it0" unfolding w1 by simp
      ultimately show False using m by simp
    qed
    have c: "updateColor (updateState w1)"
      using t update_flags_color [OF run, of k b e props] unfolding w1 by simp
    from it t have it': "it = createLocationIterator b cg" by simp
    from v v1 t c it'
    have "ro_values ro = updateValues e
            (createColors e it (heap w1 (colorTheme cp))
              ((if k \<noteq> MeshVisual \<and> updateSize (updateState w1) then createSizes e it (sizeTheme cp)
                else (\<lambda>x. x))
               ((if createGeometry (updateState w1)
                 then (\<lambda>x. x\<lparr> drawCount := ValueCell_update (drawCount x)
                        (drawCountOf k (the (geometry w1))) \<rparr>) else (\<lambda>x. x))
                (createMarkers (instanceCount it * groupCount it)
                   (createUnitsTransform cg (ro_values ro0)))))) cp"
      unfolding w1 [symmetric] cp [symmetric] by (simp add: Let_def)
    then have "cell_value (aTransform (ro_values ro)) = map operator (units cg)
           \<and> cell_value (tMarker (ro_values ro)) = replicate (instanceCount it * groupCount it) 0
           \<and> cell_value (tColor (ro_values ro)) = colorsOf e it (heap w1 (colorTheme cp))"
      by (simp add: updateValues_def createColors_def createSizes_def createMarkers_def
          createUnitsTransform_def cell_defs)
    with it' show "it = createLocationIterator b cg
           \<and> cell_value (aTransform (ro_values ro)) = map operator (units cg)
           \<and> cell_value (tMarker (ro_values ro)) = replicate (instanceCount it * groupCount it) 0
           \<and> cell_value (tColor (ro_values ro)) = colorsOf e it (heap w1 (colorTheme cp))"
      by simp
  qed
qed


lemma createOrUpdate_success_cases:
  assumes first: "createOrUpdate k b e props (Some sg) w = (None, w')"
  obtains (create) unit rest where "units (sg_group sg) = unit # rest"
      "w' = snd (create k b e (sg_group sg) props (w\<lparr> currentStructure := Some (sg_structure sg) \<rparr>))"
    | (update) wu ro0 cp0 cg it0 unit rest where "renderObject wu = Some ro0"
      "currentProps wu = Some cp0" "currentGroup wu = Some cg" "locationIt wu = Some it0"
      "units cg = unit # rest" "currentStructure wu = Some (sg_structure sg)"
      "w' = snd (update k b e props wu)"
proof -
  let ?w0 = "w\<lparr> currentStructure := Some (sg_structure sg) \<rparr>"
  let ?g = "sg_group sg"
  have w': "w' = snd (createOrUpdate k b e props (Some sg) w)"
    and ok: "fst (createOrUpdate k b e props (Some sg) w) = None"
    using first by simp_all
  consider (c) "createOrUpdate k b e props (Some sg) w = create k b e ?g props ?w0"
    | (u) cg ro same where "currentGroup w = Some cg" "renderObject w = Some ro"
        "createOrUpdate k b e props (Some sg) w
           = update k b e props (if same then ?w0 else ?w0\<lparr> currentGroup := Some ?g \<rparr>)"
    using ok
    by (cases "currentGroup w"; cases "renderObject w";
        cases "sameGroupConformation ?g (the (currentGroup w))")
       (auto simp: createOrUpdate_Some Let_def split: if_splits)
  then show ?thesis
  proof cases
    case c
    from ok c obtain unit rest where "units ?g = unit # rest" by (auto elim: create_None)
    then show ?thesis using c w' by (intro create) simp_all
  next
    case u
    let ?w1 = "if same then ?w0 else ?w0\<lparr> currentGroup := Some ?g \<rparr>"
    let ?cg = "if same then cg else ?g"
    have ro: "renderObject ?w1 = Some ro" using u(2) by simp
    have cur: "currentGroup ?w1 = Some ?cg" using u(1) by simp
    from ok u(3) have "fst (update k b e props ?w1) = None" by simp
    from update_None_run [OF this ro] cur obtain cp it unit rest
      where run: "currentProps ?w1 = Some cp" "locationIt ?w1 = Some it" "units ?cg = unit # rest"
      by (metis option.inject)
    have cs: "currentStructure ?w1 = Some (sg_structure sg)" by simp
    show ?thesis
      using w' u(3) by (intro update [OF ro run(1) cur run(2,3) cs]) simp
  qed
qed

lemma createOrUpdate_fresh:
  assumes first: "createOrUpdate k b e props (Some sg) w = (None, w1)"
    and st: "renderObject w1 = Some ro" "currentProps w1 = Some cp" "currentGroup w1 = Some cg"
      "locationIt w1 = Some it"
  shows "currentStructure w1 = Some (sg_structure sg)"
    and "color_structure (heap w1 (colorTheme cp)) = currentStructure w1"
    and "cell_value (uniforms (ro_values ro)) = uniformsOf e cp"
    and "instanceCount it \<noteq> length (units cg) \<longrightarrow>
           it = createLocationIterator b cg
           \<and> cell_value (aTransform (ro_values ro)) = map operator (units cg)
           \<and> cell_value (tMarker (ro_values ro)) = replicate (instanceCount it * groupCount it) 0
           \<and> cell_value (tColor (ro_values ro)) = colorsOf e it (heap w1 (colorTheme cp))"
proof -
  have "currentStructure w1 = Some (sg_structure sg)
    \<and> color_structure (heap w1 (colorTheme cp)) = currentStructure w1
    \<and> cell_value (uniforms (ro_values ro)) = uniformsOf e cp
    \<and> (instanceCount it \<noteq> length (units cg) \<longrightarrow>
           it = createLocationIterator b cg
           \<and> cell_value (aTransform (ro_values ro)) = map operator (units cg)
           \<and> cell_value (tMarker (ro_values ro)) = replicate (instanceCount it * groupCount it) 0
           \<and> cell_value (tColor (ro_values ro)) = colorsOf e it (heap w1 (colorTheme cp)))"
  using first
  proof (cases rule: createOrUpdate_success_cases)
    case (create unit rest)
    have cg: "cg = sg_group sg"
      using st(3) currentGroup_create [of k b e "sg_group sg" props] unfolding create(2) by simp
    note f = create_fresh [OF create(1) create(2) st(1,2,4)]
    show ?thesis using f unfolding cg by simp
  next
    case (update wu ro0 cp0 cg' it0 unit rest)
    have cg: "cg = cg'"
      using st(3) update(3) currentGroup_update [of k b e props wu] unfolding update(7) by simp
    note f = update_fresh [OF update(1-5) update(7) st(1,2,4)]
    show ?thesis using f update(6) unfolding cg by simp
  qed
  then show "currentStructure w1 = Some (sg_structure sg)"
    and "color_structure (heap w1 (colorTheme cp)) = currentStructure w1"
    and "cell_value (uniforms (ro_values ro)) = uniformsOf e cp"
    and "instanceCount it \<noteq> length (units cg) \<longrightarrow>
           it = createLocationIterator b cg
           \<and> cell_value (aTransform (ro_values ro)) = map operator (units cg)
           \<and> cell_value (tMarker (ro_values ro)) = replicate (instanceCount it * groupCount it) 0
           \<and> cell_value (tColor (ro_values ro)) = colorsOf e it (heap w1 (colorTheme cp))"
    by blast+
qed


text \<open>
  C2. When a call with a structure group has succeeded, the same call again (same
  properties, same structure group), with a builder whose \<^verbatim>\<open>setUpdateState\<close> sets no flag for
  equal properties, is the update path; its \<^verbatim>\<open>createGeometry\<close> flag stays false, the geometry
  is the one of before, no geometry and no render object is asked for, and every value cell
  of the render object holds what it held. With iterators of one instance per unit no cell
  is even written and no collaborator is called.
\<close>

theorem createOrUpdate_idempotent:
  assumes first: "createOrUpdate k b e props (Some sg) w0 = (None, w1)"
    and builder: "\<forall>p. setUpdateState b VisualUpdateState_reset p p = VisualUpdateState_reset"
  shows "createOrUpdate k b e props (Some sg) w1 = update k b e props w1
     \<and> fst (createOrUpdate k b e props (Some sg) w1) = None
     \<and> \<not> createGeometry (updateState (snd (createOrUpdate k b e props (Some sg) w1)))
     \<and> geometry (snd (createOrUpdate k b e props (Some sg) w1)) = geometry w1
     \<and> (\<forall>c \<in> set (drop (length (trace w1)) (trace (snd (createOrUpdate k b e props (Some sg) w1)))).
           c \<noteq> CallCreateRenderObject \<and> c \<noteq> CallCreateEmpty \<and> (\<forall>u. c \<noteq> CallCreateGeometry u))
     \<and> map_option bufferContents (valuesOf (snd (createOrUpdate k b e props (Some sg) w1)))
         = map_option bufferContents (valuesOf w1)
     \<and> valuesOf w1 \<noteq> None
     \<and> ((\<forall>g. instanceCount (createLocationIterator b g) = length (units g)) \<longrightarrow>
           valuesOf (snd (createOrUpdate k b e props (Some sg) w1)) = valuesOf w1
           \<and> trace (snd (createOrUpdate k b e props (Some sg) w1)) = trace w1)"
proof -
  from createOrUpdate_established [OF first] obtain ro cp cg it unit rest
    where st: "renderObject w1 = Some ro" "currentProps w1 = Some cp" "currentGroup w1 = Some cg"
        "locationIt w1 = Some it"
      and run5: "units cg = unit # rest"
      and conf: "currentConformationId w1 = Some (conformationId unit)"
      and hash: "hashCode cg = hashCode (sg_group sg)"
      and same: "sameGroupConformation (sg_group sg) cg = Inr True"
      and cp': "currentProps w1 = Some (assign cp props)"
      and inst: "(\<forall>g. instanceCount (createLocationIterator b g) = length (units g))
                   \<longrightarrow> instanceCount it = length (units cg)"
    by blast
  note run = st run5
  note fr = createOrUpdate_fresh [OF first st]
  let ?U = "snd (update k b e props w1)"
  let ?m = "length (units cg) \<noteq> instanceCount it"
  have np: "assign cp props = cp" using st(2) cp' by simp
  have w1: "w1\<lparr> currentStructure := Some (sg_structure sg) \<rparr> = w1"
    using fr(1) by simp
  have eq: "createOrUpdate k b e props (Some sg) w1 = update k b e props w1"
    using st(1,3) hash same by (simp add: createOrUpdate_Some w1)
  have bind: "bindStructure cp w1 = w1" using fr(2) by (rule bindStructure_idem)
  note fl = update_flags [OF run, of k b e props]
  have rs: "\<not> createGeometry VisualUpdateState_reset" "\<not> updateSize VisualUpdateState_reset"
    "\<not> updateTransform VisualUpdateState_reset" "\<not> updateColor VisualUpdateState_reset"
    by (simp_all add: VisualUpdateState_reset_def)
  have fG: "\<not> createGeometry (updateState ?U)"
    using builder conf by (simp add: fl(1) np rs)
  have fS: "\<not> updateSize (updateState ?U)"
    using builder by (simp add: fl(3) np rs)
  have fT: "updateTransform (updateState ?U) = ?m"
    using builder by (simp add: fl(2) np rs)
  have fC: "updateColor (updateState ?U) = ?m"
    using builder fG fT by (simp add: update_flags_color [OF run] np rs)
  have hp: "heap ?U = heap w1"
    using update_heap(1) [OF run, of k b e props] by (simp add: np bind)
  have ok: "fst (update k b e props w1) = None"
    by (rule update_fields(6) [OF run])
  have geo: "geometry ?U = geometry w1"
    using fG by (simp add: update_geometry [OF run])
  have tr: "trace ?U = trace w1
              @ (if ?m then [CallCreateLocationIterator, CallCreateUnitsTransform,
                   CallCreateMarkers (instanceCount (createLocationIterator b cg)
                                      * groupCount (createLocationIterator b cg)),
                   CallCreateColors] else [])"
    using fG fS fT fC by (simp add: update_trace [OF run])
  have vals: "valuesOf ?U =
      Some (updateValues e
        (if ?m then createColors e (createLocationIterator b cg) (heap w1 (colorTheme cp))
                     (createMarkers (instanceCount (createLocationIterator b cg)
                                     * groupCount (createLocationIterator b cg))
                        (createUnitsTransform cg (ro_values ro)))
         else ro_values ro) cp)"
    using fG fS fT fC by (simp add: update_values [OF run] Let_def np hp)
  have same_cells: "updateValues e (ro_values ro) cp = ro_values ro"
    using fr(3) by (simp add: updateValues_def cell_defs)
  have v1: "valuesOf w1 = Some (ro_values ro)" using st(1) by (simp add: valuesOf_def)
  have contents: "map_option bufferContents (valuesOf ?U) = map_option bufferContents (valuesOf w1)"
  proof (cases ?m)
    case False
    then show ?thesis by (simp add: vals v1 same_cells)
  next
    case True
    with fr(4) have f: "it = createLocationIterator b cg"
      "cell_value (aTransform (ro_values ro)) = map operator (units cg)"
      "cell_value (tMarker (ro_values ro)) = replicate (instanceCount it * groupCount it) 0"
      "cell_value (tColor (ro_values ro)) = colorsOf e it (heap w1 (colorTheme cp))"
      by auto
    have "bufferContents (updateValues e
            (createColors e it (heap w1 (colorTheme cp))
               (createMarkers (instanceCount it * groupCount it)
                  (createUnitsTransform cg (ro_values ro)))) cp)
          = bufferContents (ro_values ro)"
      using f(2-4) fr(3)
      by (simp add: bufferContents_def updateValues_def createColors_def createMarkers_def
          createUnitsTransform_def cell_defs)
    with True show ?thesis by (simp add: vals v1 f(1) [symmetric])
  qed
  have H: "valuesOf ?U = valuesOf w1 \<and> trace ?U = trace w1"
    if "\<forall>g. instanceCount (createLocationIterator b g) = length (units g)"
  proof -
    from that inst have "\<not> ?m" by simp
    then show ?thesis by (simp add: vals v1 same_cells tr)
  qed
  have calls: "\<forall>c \<in> set (drop (length (trace w1)) (trace ?U)).
           c \<noteq> CallCreateRenderObject \<and> c \<noteq> CallCreateEmpty \<and> (\<forall>u. c \<noteq> CallCreateGeometry u)"
    by (auto simp: tr)
  show ?thesis
    unfolding eq using ok fG geo calls contents v1 H by simp
qed

theorem createOrUpdate_idempotent_witness:
  "createOrUpdate PointsVisual gaussianBuilder exampleEnv noProps (Some (structureGroupOf groupA))
     (initialVisual exampleHeap) = (None, createdWith PointsVisual groupA)
   \<and> (\<forall>p. setUpdateState gaussianBuilder VisualUpdateState_reset p p = VisualUpdateState_reset)
   \<and> (\<forall>g. instanceCount (createLocationIterator gaussianBuilder g) = length (units g))
   \<and> fst (createOrUpdate PointsVisual gaussianBuilder exampleEnv noProps
            (Some (structureGroupOf groupA)) (createdWith PointsVisual groupA)) = None
   \<and> \<not> createGeometry (updateState (snd (createOrUpdate PointsVisual gaussianBuilder exampleEnv
            noProps (Some (structureGroupOf groupA)) (createdWith PointsVisual groupA))))
   \<and> valuesOf (snd (createOrUpdate PointsVisual gaussianBuilder exampleEnv noProps
            (Some (structureGroupOf groupA)) (createdWith PointsVisual groupA)))
       = valuesOf (createdWith PointsVisual groupA)
   \<and> valuesOf (createdWith PointsVisual groupA) \<noteq> None"
proof -
  let ?w1 = "createdWith PointsVisual groupA"
  have h1: "createOrUpdate PointsVisual gaussianBuilder exampleEnv noProps
              (Some (structureGroupOf groupA)) (initialVisual exampleHeap) = (None, ?w1)"
    by (simp add: createdWith_def prod_eq_iff) (simp add: run_defs)
  have h2: "\<forall>p. setUpdateState gaussianBuilder VisualUpdateState_reset p p
              = VisualUpdateState_reset"
    by (simp add: gaussianBuilder_def gaussianSetUpdateState_def)
  have h3: "\<forall>g. instanceCount (createLocationIterator gaussianBuilder g) = length (units g)"
    by (simp add: gaussianBuilder_def)
  from createOrUpdate_idempotent [OF h1 h2] h3
  have "fst (createOrUpdate PointsVisual gaussianBuilder exampleEnv noProps
            (Some (structureGroupOf groupA)) ?w1) = None"
    and "\<not> createGeometry (updateState (snd (createOrUpdate PointsVisual gaussianBuilder
            exampleEnv noProps (Some (structureGroupOf groupA)) ?w1)))"
    and "valuesOf (snd (createOrUpdate PointsVisual gaussianBuilder exampleEnv noProps
            (Some (structureGroupOf groupA)) ?w1)) = valuesOf ?w1"
    and "valuesOf ?w1 \<noteq> None"
    by blast+
  with h1 h2 h3 show ?thesis by blast
qed

section \<open>Marking\<close>

declare applyMarkerLoop.simps [simp del]

lemma applyMarker_idem: "applyMarker a (applyMarker a v) = applyMarker a v"
proof (cases a)
  case Highlight
  have "(v + 1) mod 2 \<noteq> 0" if "v mod 2 = 0" using that by presburger
  with Highlight show ?thesis by (simp add: applyMarker_def)
qed (simp_all add: applyMarker_def)

lemma applyMarkerLoop_length: "length (fst (applyMarkerLoop a i e arr ch)) = length arr"
proof (induction a i e arr ch rule: applyMarkerLoop.induct)
  case (1 a i e arr changed)
  then show ?case by (subst applyMarkerLoop.simps) simp
qed

lemma applyMarkerLoop_nth:
  "j < length arr \<Longrightarrow>
     fst (applyMarkerLoop a i e arr ch) ! j
       = (if i \<le> j \<and> j < e then applyMarker a (arr ! j) else arr ! j)"
proof (induction a i e arr ch rule: applyMarkerLoop.induct)
  case (1 a i e arr changed)
  show ?case
  proof (cases "i < e")
    case False
    then show ?thesis by (subst applyMarkerLoop.simps) simp
  next
    case True
    show ?thesis
    proof (cases "i < length arr")
      case in_range: True
      from "1.IH"(1) [OF True in_range] "1.prems"
      have "fst (applyMarkerLoop a (Suc i) e (arr[i := applyMarker a (arr ! i)])
                   (arr ! i \<noteq> applyMarker a (arr ! i) \<or> changed)) ! j
              = (if Suc i \<le> j \<and> j < e
                 then applyMarker a (arr[i := applyMarker a (arr ! i)] ! j)
                 else arr[i := applyMarker a (arr ! i)] ! j)"
        by simp
      with True in_range "1.prems" show ?thesis
        by (subst applyMarkerLoop.simps) (auto simp: nth_list_update)
    next
      case out: False
      from "1.IH"(2) [OF True out] "1.prems"
      have "fst (applyMarkerLoop a (Suc i) e arr changed) ! j
              = (if Suc i \<le> j \<and> j < e then applyMarker a (arr ! j) else arr ! j)"
        by simp
      with True out "1.prems" show ?thesis
        by (subst applyMarkerLoop.simps) auto
    qed
  qed
qed

lemma applyMarkerLoop_changed:
  "snd (applyMarkerLoop a i e arr ch)
     = (ch \<or> (\<exists>j. i \<le> j \<and> j < e \<and> j < length arr \<and> applyMarker a (arr ! j) \<noteq> arr ! j))"
proof (induction a i e arr ch rule: applyMarkerLoop.induct)
  case (1 a i e arr changed)
  show ?case
  proof (cases "i < e")
    case False
    then show ?thesis by (subst applyMarkerLoop.simps) auto
  next
    case True
    show ?thesis
    proof (cases "i < length arr")
      case in_range: True
      have split: "(\<exists>j. i \<le> j \<and> j < e \<and> j < length arr \<and> applyMarker a (arr ! j) \<noteq> arr ! j)
            = (applyMarker a (arr ! i) \<noteq> arr ! i
               \<or> (\<exists>j. Suc i \<le> j \<and> j < e \<and> j < length arr \<and> applyMarker a (arr ! j) \<noteq> arr ! j))"
        using True in_range by (metis Suc_leI le_neq_implies_less order_refl Suc_le_lessD less_imp_le_nat)
      have upd: "(\<exists>j. Suc i \<le> j \<and> j < e \<and> j < length (arr[i := applyMarker a (arr ! i)])
                    \<and> applyMarker a (arr[i := applyMarker a (arr ! i)] ! j)
                        \<noteq> arr[i := applyMarker a (arr ! i)] ! j)
            = (\<exists>j. Suc i \<le> j \<and> j < e \<and> j < length arr \<and> applyMarker a (arr ! j) \<noteq> arr ! j)"
        by (auto simp: nth_list_update)
      show ?thesis
        using "1.IH"(1) [OF True in_range] True in_range
        by (subst applyMarkerLoop.simps) (auto simp: upd split)
    next
      case out: False
      have none: "\<not> (\<exists>j. i \<le> j \<and> j < e \<and> j < length arr \<and> applyMarker a (arr ! j) \<noteq> arr ! j)"
        "\<not> (\<exists>j. Suc i \<le> j \<and> j < e \<and> j < length arr \<and> applyMarker a (arr ! j) \<noteq> arr ! j)"
        using out by auto
      show ?thesis
        using "1.IH"(2) [OF True out] True out
        by (subst applyMarkerLoop.simps) (simp add: none)
    qed
  qed
qed


lemma applyMarkerAction_eq:
  "applyMarkerAction arr s e a =
     (map (\<lambda>i. if s \<le> i \<and> i < e then applyMarker a (arr ! i) else arr ! i) [0..<length arr],
      \<exists>j. s \<le> j \<and> j < e \<and> j < length arr \<and> applyMarker a (arr ! j) \<noteq> arr ! j)"
proof (rule prod_eqI)
  show "fst (applyMarkerAction arr s e a) =
          fst (map (\<lambda>i. if s \<le> i \<and> i < e then applyMarker a (arr ! i) else arr ! i) [0..<length arr],
               \<exists>j. s \<le> j \<and> j < e \<and> j < length arr \<and> applyMarker a (arr ! j) \<noteq> arr ! j)"
    by (rule nth_equalityI)
       (simp_all add: applyMarkerAction_def applyMarkerLoop_length applyMarkerLoop_nth)
  show "snd (applyMarkerAction arr s e a) =
          snd (map (\<lambda>i. if s \<le> i \<and> i < e then applyMarker a (arr ! i) else arr ! i) [0..<length arr],
               \<exists>j. s \<le> j \<and> j < e \<and> j < length arr \<and> applyMarker a (arr ! j) \<noteq> arr ! j)"
    by (simp add: applyMarkerAction_def applyMarkerLoop_changed)
qed

lemma map_upt_eq: "(map g [0..<length arr] = arr) = (\<forall>j<length arr. g j = arr ! j)"
proof
  assume h: "map g [0..<length arr] = arr"
  show "\<forall>j<length arr. g j = arr ! j"
  proof (intro allI impI)
    fix j assume j: "j < length arr"
    from arg_cong [OF h, of "\<lambda>xs. xs ! j"] have "map g [0..<length arr] ! j = arr ! j" .
    moreover from j have "map g [0..<length arr] ! j = g j" by simp
    ultimately show "g j = arr ! j" by simp
  qed
next
  assume "\<forall>j<length arr. g j = arr ! j"
  then show "map g [0..<length arr] = arr" by (intro nth_equalityI) simp_all
qed

lemma marked_differs:
  "(map (\<lambda>i. if P i then f (arr ! i) else arr ! i) [0..<length arr] \<noteq> arr)
     = (\<exists>j. P j \<and> j < length arr \<and> f (arr ! j) \<noteq> arr ! j)"
proof -
  have "(\<forall>j<length arr. (if P j then f (arr ! j) else arr ! j) = arr ! j)
          = (\<forall>j. P j \<and> j < length arr \<longrightarrow> f (arr ! j) = arr ! j)"
    by (auto split: if_splits)
  then show ?thesis unfolding map_upt_eq by blast
qed

lemma apply_interval_eq:
  "apply_interval a iv v =
     (\<exists>j. fst iv \<le> j \<and> j < snd iv \<and> j < length (cell_value (tMarker v))
           \<and> applyMarker a (cell_value (tMarker v) ! j) \<noteq> cell_value (tMarker v) ! j,
      v\<lparr> tMarker := (tMarker v)\<lparr> cell_value :=
           map (\<lambda>i. if fst iv \<le> i \<and> i < snd iv then applyMarker a (cell_value (tMarker v) ! i)
                     else cell_value (tMarker v) ! i) [0..<length (cell_value (tMarker v))] \<rparr> \<rparr>)"
  by (simp add: apply_interval_def applyMarkerAction_eq Let_def)

lemma apply_intervals_eq:
  "apply_intervals a ivs ch v =
     (ch \<or> (\<exists>j. (\<exists>iv \<in> set ivs. fst iv \<le> j \<and> j < snd iv) \<and> j < length (cell_value (tMarker v))
                 \<and> applyMarker a (cell_value (tMarker v) ! j) \<noteq> cell_value (tMarker v) ! j),
      v\<lparr> tMarker := (tMarker v)\<lparr> cell_value :=
           map (\<lambda>i. if \<exists>iv \<in> set ivs. fst iv \<le> i \<and> i < snd iv
                     then applyMarker a (cell_value (tMarker v) ! i)
                     else cell_value (tMarker v) ! i) [0..<length (cell_value (tMarker v))] \<rparr> \<rparr>)"
proof (induction ivs arbitrary: ch v)
  case Nil
  then show ?case by (simp add: map_nth)
next
  case (Cons iv ivs)
  let ?arr = "cell_value (tMarker v)"
  let ?f = "applyMarker a"
  let ?in = "\<lambda>i. fst iv \<le> i \<and> i < snd iv"
  let ?rest = "\<lambda>i. \<exists>x \<in> set ivs. fst x \<le> i \<and> i < snd x"
  let ?arr1 = "map (\<lambda>i. if ?in i then ?f (?arr ! i) else ?arr ! i) [0..<length ?arr]"
  let ?v1 = "v\<lparr> tMarker := (tMarker v)\<lparr> cell_value := ?arr1 \<rparr> \<rparr>"
  let ?c1 = "\<exists>j. ?in j \<and> j < length ?arr \<and> ?f (?arr ! j) \<noteq> ?arr ! j"
  have step: "apply_intervals a (iv # ivs) ch v = apply_intervals a ivs (if ?c1 then True else ch) ?v1"
    by (simp add: apply_interval_eq Let_def)
  have arr: "map (\<lambda>i. if ?rest i then ?f (?arr1 ! i) else ?arr1 ! i) [0..<length ?arr1]
           = map (\<lambda>i. if ?in i \<or> ?rest i then ?f (?arr ! i) else ?arr ! i) [0..<length ?arr]"
    by (rule nth_equalityI) (auto simp: applyMarker_idem)
  have ch: "((if ?c1 then True else ch)
              \<or> (\<exists>j. ?rest j \<and> j < length ?arr1 \<and> ?f (?arr1 ! j) \<noteq> ?arr1 ! j))
           = (ch \<or> (\<exists>j. (?in j \<or> ?rest j) \<and> j < length ?arr \<and> ?f (?arr ! j) \<noteq> ?arr ! j))"
  proof -
    define inn where "inn = ?in"
    define rest where "rest = ?rest"
    define arr1 where "arr1 = ?arr1"
    define d where "d = (\<lambda>j. ?f (?arr ! j) \<noteq> ?arr ! j)"
    define d1 where "d1 = (\<lambda>j. ?f (arr1 ! j) \<noteq> arr1 ! j)"
    define n where "n = length ?arr"
    have len: "length arr1 = n" by (simp add: arr1_def n_def)
    have K: "d1 j = (\<not> inn j \<and> d j)" if "j < n" for j
      using that by (simp add: d1_def d_def arr1_def inn_def n_def applyMarker_idem)
    have "((if (\<exists>j. inn j \<and> j < n \<and> d j) then True else ch)
              \<or> (\<exists>j. rest j \<and> j < length arr1 \<and> d1 j))
           = (ch \<or> (\<exists>j. (inn j \<or> rest j) \<and> j < n \<and> d j))"
      unfolding len using K by (cases "\<exists>j. inn j \<and> j < n \<and> d j") (simp, blast, simp, blast)
    then show ?thesis
      unfolding inn_def rest_def arr1_def d_def d1_def n_def .
  qed
  have tm: "cell_value (tMarker ?v1) = ?arr1" by simp
  have upd: "?v1\<lparr> tMarker := (tMarker ?v1)\<lparr> cell_value := Y \<rparr> \<rparr>
               = v\<lparr> tMarker := (tMarker v)\<lparr> cell_value := Y \<rparr> \<rparr>" for Y
    by simp
  have "apply_intervals a (iv # ivs) ch v =
     ((if ?c1 then True else ch)
        \<or> (\<exists>j. ?rest j \<and> j < length ?arr1 \<and> ?f (?arr1 ! j) \<noteq> ?arr1 ! j),
      v\<lparr> tMarker := (tMarker v)\<lparr> cell_value :=
           map (\<lambda>i. if ?rest i then ?f (?arr1 ! i) else ?arr1 ! i) [0..<length ?arr1] \<rparr> \<rparr>)"
    unfolding step Cons.IH tm upd ..
  also have "\<dots> =
     (ch \<or> (\<exists>j. (?in j \<or> ?rest j) \<and> j < length ?arr \<and> ?f (?arr ! j) \<noteq> ?arr ! j),
      v\<lparr> tMarker := (tMarker v)\<lparr> cell_value :=
           map (\<lambda>i. if ?in i \<or> ?rest i then ?f (?arr ! i) else ?arr ! i) [0..<length ?arr] \<rparr> \<rparr>)"
    unfolding ch arr ..
  also have "\<dots> =
     (ch \<or> (\<exists>j. (\<exists>x \<in> set (iv # ivs). fst x \<le> j \<and> j < snd x) \<and> j < length ?arr
                 \<and> ?f (?arr ! j) \<noteq> ?arr ! j),
      v\<lparr> tMarker := (tMarker v)\<lparr> cell_value :=
           map (\<lambda>i. if \<exists>x \<in> set (iv # ivs). fst x \<le> i \<and> i < snd x
                     then ?f (?arr ! i) else ?arr ! i) [0..<length ?arr] \<rparr> \<rparr>)"
    by (simp only: list.set bex_simps)
  finally show ?case .
qed


lemma cell_value_update: "(c :: 'a ValueCell)\<lparr> cell_value := x \<rparr> = \<lparr> cell_value = x, version = version c \<rparr>"
  by (cases c) simp

lemma signal_marker:
  "(if changed
    then (v\<lparr> tMarker := (tMarker v)\<lparr> cell_value := x \<rparr> \<rparr>)
           \<lparr> tMarker := ValueCell_update
               (tMarker (v\<lparr> tMarker := (tMarker v)\<lparr> cell_value := x \<rparr> \<rparr>))
               (cell_value (tMarker (v\<lparr> tMarker := (tMarker v)\<lparr> cell_value := x \<rparr> \<rparr>))) \<rparr>
    else v\<lparr> tMarker := (tMarker v)\<lparr> cell_value := x \<rparr> \<rparr>)
   = v\<lparr> tMarker := \<lparr> cell_value = x,
                      version = version (tMarker v) + (if changed then 1 else 0) \<rparr> \<rparr>"
  by (simp add: ValueCell_update_def cell_value_update)

lemma mark_run:
  assumes "renderObject w = Some ro" and "locationIt w = Some it"
    and "(if loci = EveryLoci
          then Inr (apply_interval action (ofBounds 0 (groupCount it * instanceCount it))
                      (ro_values ro))
          else (case currentGroup w of
                  None \<Rightarrow> Inl TypeError
                | Some cg \<Rightarrow> Inr (apply_intervals action (markB b loci cg) False (ro_values ro))))
         = Inr (changed, (ro_values ro)\<lparr> tMarker := (tMarker (ro_values ro))\<lparr> cell_value := x \<rparr> \<rparr>)"
  shows "mark b loci action w =
           (Inr changed,
            w\<lparr> renderObject := Some (ro\<lparr> ro_values := (ro_values ro)
                 \<lparr> tMarker := \<lparr> cell_value = x,
                     version = version (tMarker (ro_values ro)) + (if changed then 1 else 0) \<rparr> \<rparr> \<rparr>) \<rparr>)"
  using assms(1,2)
  by (simp add: mark_def isEveryLoci_def assms(3) Let_def signal_marker del: One_nat_def)

lemma created_state:
  "renderObject (createdWith PointsVisual groupA) = Some
     \<lparr> ro_id = 0,
       ro_values = \<lparr> drawCount = \<lparr> cell_value = 2, version = 0 \<rparr>,
                     aTransform = \<lparr> cell_value = [0, 1], version = 0 \<rparr>,
                     tMarker = \<lparr> cell_value = [0, 0, 0, 0, 0, 0, 0, 0], version = 0 \<rparr>,
                     tColor = \<lparr> cell_value = [0, 0, 0, 0, 0, 0, 0, 0], version = 0 \<rparr>,
                     tSize = \<lparr> cell_value = [1, 1, 1, 1, 1, 1, 1, 1], version = 0 \<rparr>,
                     uniforms = \<lparr> cell_value = [1], version = 0 \<rparr> \<rparr>,
       ro_state = 1 \<rparr>"
  "locationIt (createdWith PointsVisual groupA)
     = Some \<lparr> groupCount = 4, instanceCount = 2, cursor = 0 \<rparr>"
  by (simp_all add: run_defs eval_nat_numeral)

text \<open>
  C6. \<^verbatim>\<open>mark\<close> answers false and changes nothing when there is no render object. With the
  every-location locus it applies the action to the slots \<^verbatim>\<open>[0, groupCount * instanceCount)\<close>
  of the marker array and to no other slot. In both paths (the every-location locus, the
  builder's intervals) the answer is true exactly when the marker array became different,
  the marker cell gets a new version exactly then, and nothing else of the visual changes.
\<close>

theorem mark_contract:
  "(renderObject w = None \<longrightarrow> mark b loci action w = (Inr False, w))
   \<and> (renderObject w = Some ro \<and> locationIt w = Some it \<longrightarrow>
       (let arr = cell_value (tMarker (ro_values ro));
            arr' = map (\<lambda>i. if i < groupCount it * instanceCount it
                             then applyMarker action (arr ! i) else arr ! i) [0..<length arr];
            changed = (arr' \<noteq> arr)
        in mark b EveryLoci action w =
             (Inr changed,
              w\<lparr> renderObject := Some (ro\<lparr> ro_values := (ro_values ro)
                   \<lparr> tMarker := \<lparr> cell_value = arr',
                       version = version (tMarker (ro_values ro)) + (if changed then 1 else 0) \<rparr> \<rparr> \<rparr>) \<rparr>)))
   \<and> (renderObject w = Some ro \<and> locationIt w = Some it \<and> currentGroup w = Some cg
        \<and> loci \<noteq> EveryLoci \<longrightarrow>
       (let arr = cell_value (tMarker (ro_values ro));
            arr' = map (\<lambda>i. if \<exists>iv \<in> set (markB b loci cg). fst iv \<le> i \<and> i < snd iv
                             then applyMarker action (arr ! i) else arr ! i) [0..<length arr];
            changed = (arr' \<noteq> arr)
        in mark b loci action w =
             (Inr changed,
              w\<lparr> renderObject := Some (ro\<lparr> ro_values := (ro_values ro)
                   \<lparr> tMarker := \<lparr> cell_value = arr',
                       version = version (tMarker (ro_values ro)) + (if changed then 1 else 0) \<rparr> \<rparr> \<rparr>) \<rparr>)))"
proof (intro conjI impI; (elim conjE)?)
  assume "renderObject w = None"
  then show "mark b loci action w = (Inr False, w)" by (simp add: mark_def)
next
  assume st: "renderObject w = Some ro" "locationIt w = Some it"
  let ?arr = "cell_value (tMarker (ro_values ro))"
  let ?n = "groupCount it * instanceCount it"
  let ?arr' = "map (\<lambda>i. if i < ?n then applyMarker action (?arr ! i) else ?arr ! i) [0..<length ?arr]"
  have d: "(?arr' \<noteq> ?arr)
             = (\<exists>j. j < ?n \<and> j < length ?arr \<and> applyMarker action (?arr ! j) \<noteq> ?arr ! j)"
    by (rule marked_differs)
  have "apply_interval action (ofBounds 0 ?n) (ro_values ro)
          = (?arr' \<noteq> ?arr,
             (ro_values ro)\<lparr> tMarker := (tMarker (ro_values ro))\<lparr> cell_value := ?arr' \<rparr> \<rparr>)"
    unfolding d by (simp add: apply_interval_eq ofBounds_def)
  then have "mark b EveryLoci action w =
             (Inr (?arr' \<noteq> ?arr),
              w\<lparr> renderObject := Some (ro\<lparr> ro_values := (ro_values ro)
                   \<lparr> tMarker := \<lparr> cell_value = ?arr',
                       version = version (tMarker (ro_values ro))
                                 + (if ?arr' \<noteq> ?arr then 1 else 0) \<rparr> \<rparr> \<rparr>) \<rparr>)"
    by (intro mark_run [OF st]) simp
  then show "let arr = cell_value (tMarker (ro_values ro));
            arr' = map (\<lambda>i. if i < groupCount it * instanceCount it
                             then applyMarker action (arr ! i) else arr ! i) [0..<length arr];
            changed = (arr' \<noteq> arr)
        in mark b EveryLoci action w =
             (Inr changed,
              w\<lparr> renderObject := Some (ro\<lparr> ro_values := (ro_values ro)
                   \<lparr> tMarker := \<lparr> cell_value = arr',
                       version = version (tMarker (ro_values ro)) + (if changed then 1 else 0) \<rparr> \<rparr> \<rparr>) \<rparr>)"
    unfolding Let_def .
next
  assume st: "renderObject w = Some ro" "locationIt w = Some it"
    and cg: "currentGroup w = Some cg" and l: "loci \<noteq> EveryLoci"
  let ?arr = "cell_value (tMarker (ro_values ro))"
  let ?arr' = "map (\<lambda>i. if \<exists>iv \<in> set (markB b loci cg). fst iv \<le> i \<and> i < snd iv
                         then applyMarker action (?arr ! i) else ?arr ! i) [0..<length ?arr]"
  have d: "(?arr' \<noteq> ?arr)
             = (\<exists>j. (\<exists>iv \<in> set (markB b loci cg). fst iv \<le> j \<and> j < snd iv) \<and> j < length ?arr
                    \<and> applyMarker action (?arr ! j) \<noteq> ?arr ! j)"
    by (rule marked_differs)
  have "apply_intervals action (markB b loci cg) False (ro_values ro)
          = (?arr' \<noteq> ?arr,
             (ro_values ro)\<lparr> tMarker := (tMarker (ro_values ro))\<lparr> cell_value := ?arr' \<rparr> \<rparr>)"
    unfolding d by (simp add: apply_intervals_eq)
  then have "mark b loci action w =
             (Inr (?arr' \<noteq> ?arr),
              w\<lparr> renderObject := Some (ro\<lparr> ro_values := (ro_values ro)
                   \<lparr> tMarker := \<lparr> cell_value = ?arr',
                       version = version (tMarker (ro_values ro))
                                 + (if ?arr' \<noteq> ?arr then 1 else 0) \<rparr> \<rparr> \<rparr>) \<rparr>)"
    using cg l by (intro mark_run [OF st]) simp
  then show "let arr = cell_value (tMarker (ro_values ro));
            arr' = map (\<lambda>i. if \<exists>iv \<in> set (markB b loci cg). fst iv \<le> i \<and> i < snd iv
                             then applyMarker action (arr ! i) else arr ! i) [0..<length arr];
            changed = (arr' \<noteq> arr)
        in mark b loci action w =
             (Inr changed,
              w\<lparr> renderObject := Some (ro\<lparr> ro_values := (ro_values ro)
                   \<lparr> tMarker := \<lparr> cell_value = arr',
                       version = version (tMarker (ro_values ro)) + (if changed then 1 else 0) \<rparr> \<rparr> \<rparr>) \<rparr>)"
    unfolding Let_def .
qed


theorem mark_contract_witness:
  "renderObject (initialVisual exampleHeap :: GaussianProps Visual) = None
   \<and> mark markingBuilder EveryLoci Highlight (initialVisual exampleHeap)
       = (Inr False, initialVisual exampleHeap)
   \<and> renderObject (createdWith PointsVisual groupA) \<noteq> None
   \<and> locationIt (createdWith PointsVisual groupA)
       = Some \<lparr> groupCount = 4, instanceCount = 2, cursor = 0 \<rparr>
   \<and> fst (mark markingBuilder EveryLoci Highlight (createdWith PointsVisual groupA)) = Inr True
   \<and> map_option tMarker (valuesOf (snd (mark markingBuilder EveryLoci Highlight
         (createdWith PointsVisual groupA))))
       = Some \<lparr> cell_value = [1, 1, 1, 1, 1, 1, 1, 1], version = 1 \<rparr>
   \<and> currentGroup (createdWith PointsVisual groupA) = Some groupA
   \<and> ElementLoci [1] \<noteq> EveryLoci
   \<and> fst (mark markingBuilder (ElementLoci [1]) Highlight (createdWith PointsVisual groupA))
       = Inr True
   \<and> map_option tMarker (valuesOf (snd (mark markingBuilder (ElementLoci [1]) Highlight
         (createdWith PointsVisual groupA))))
       = Some \<lparr> cell_value = [0, 0, 0, 0, 1, 1, 1, 1], version = 1 \<rparr>"
proof -
  let ?W = "createdWith PointsVisual groupA"
  let ?ro = "the (renderObject ?W)"
  let ?it = "\<lparr> groupCount = 4, instanceCount = 2, cursor = 0 \<rparr>"
  let ?w0 = "initialVisual exampleHeap :: GaussianProps Visual"
  have h0: "renderObject ?w0 = None" by (simp add: initialVisual_def)
  have h1: "renderObject ?W = Some ?ro" by (simp add: created_state)
  have h2: "locationIt ?W = Some ?it" by (rule created_state)
  have h3: "currentGroup ?W = Some groupA"
    by (simp add: createdWith_def createOrUpdate_Some initialVisual_def currentGroup_create
        structureGroupOf_def)
  have h4: "ElementLoci [1] \<noteq> EveryLoci" by simp
  have arr: "cell_value (tMarker (ro_values ?ro)) = [0, 0, 0, 0, 0, 0, 0, 0]"
    "version (tMarker (ro_values ?ro)) = 0"
    by (simp_all add: created_state)
  have ivs: "markB markingBuilder (ElementLoci [1]) groupA = [(4, 8)]"
    by (simp add: markingBuilder_def unitMark_def groupA_def ofBounds_def)
  from mark_contract [where w = ?w0 and b = markingBuilder and loci = EveryLoci
      and action = Highlight] h0
  have a: "mark markingBuilder EveryLoci Highlight ?w0 = (Inr False, ?w0)" by blast
  note T = mark_contract [where w = ?W and ro = ?ro and it = ?it and b = markingBuilder
      and loci = "ElementLoci [1]" and action = Highlight and cg = groupA]
  let ?arr = "cell_value (tMarker (ro_values ?ro))"
  let ?every = "map (\<lambda>i. if i < groupCount ?it * instanceCount ?it
                          then applyMarker Highlight (?arr ! i) else ?arr ! i) [0..<length ?arr]"
  let ?unit1 = "map (\<lambda>i. if \<exists>iv \<in> set (markB markingBuilder (ElementLoci [1]) groupA).
                               fst iv \<le> i \<and> i < snd iv
                          then applyMarker Highlight (?arr ! i) else ?arr ! i) [0..<length ?arr]"
  from T h1 h2
  have "let arr = ?arr; arr' = map (\<lambda>i. if i < groupCount ?it * instanceCount ?it
                          then applyMarker Highlight (arr ! i) else arr ! i) [0..<length arr];
            changed = (arr' \<noteq> arr)
        in mark markingBuilder EveryLoci Highlight ?W =
             (Inr changed,
              ?W\<lparr> renderObject := Some (?ro\<lparr> ro_values := (ro_values ?ro)
                   \<lparr> tMarker := \<lparr> cell_value = arr',
                       version = version (tMarker (ro_values ?ro)) + (if changed then 1 else 0) \<rparr> \<rparr> \<rparr>) \<rparr>)"
    by blast
  from this [unfolded Let_def arr]
  have b: "fst (mark markingBuilder EveryLoci Highlight ?W) = Inr True
      \<and> map_option tMarker (valuesOf (snd (mark markingBuilder EveryLoci Highlight ?W)))
          = Some \<lparr> cell_value = [1, 1, 1, 1, 1, 1, 1, 1], version = 1 \<rparr>"
    by (simp add: valuesOf_def applyMarker_def eval_nat_numeral)
  from T h1 h2 h3 h4
  have "let arr = ?arr; arr' = map (\<lambda>i. if \<exists>iv \<in> set (markB markingBuilder (ElementLoci [1]) groupA).
                               fst iv \<le> i \<and> i < snd iv
                          then applyMarker Highlight (arr ! i) else arr ! i) [0..<length arr];
            changed = (arr' \<noteq> arr)
        in mark markingBuilder (ElementLoci [1]) Highlight ?W =
             (Inr changed,
              ?W\<lparr> renderObject := Some (?ro\<lparr> ro_values := (ro_values ?ro)
                   \<lparr> tMarker := \<lparr> cell_value = arr',
                       version = version (tMarker (ro_values ?ro)) + (if changed then 1 else 0) \<rparr> \<rparr> \<rparr>) \<rparr>)"
    by blast
  from this [unfolded Let_def ivs arr]
  have c: "fst (mark markingBuilder (ElementLoci [1]) Highlight ?W) = Inr True
      \<and> map_option tMarker (valuesOf (snd (mark markingBuilder (ElementLoci [1]) Highlight ?W)))
          = Some \<lparr> cell_value = [0, 0, 0, 0, 1, 1, 1, 1], version = 1 \<rparr>"
    by (simp add: valuesOf_def applyMarker_def eval_nat_numeral)
  have h1': "renderObject ?W \<noteq> None" by (simp add: created_state)
  from h0 h1' h2 h3 h4 a b c show ?thesis by blast
qed

end
